theory Spec2Isabelle
  imports Complex_Main "HOL-Library.Sublist" "HOL-Library.Char_ord" "HOL-Library.List_Lexorder"
begin

section \<open>Exceptions\<close>

text \<open>
  Every Python exception the notebooks can meet is a value. The first five are raised by
  the language and by pandas on the paths modelled below; \<open>LibraryError\<close> stands for
  any exception raised inside GluonTS, boto3 or the file system, tagged with its name.
\<close>

datatype exn =
  AssertionError | IndexError | KeyError | NameError | ValueError | LibraryError string

section \<open>The pandas DataFrame operations used by the comparison helper\<close>

text \<open>
  A frame is its row labels and its columns in order, each column a label and one value
  per row. Only the operations \<open>evaluat_models_from_dict\<close> calls are modelled:
  \<^verbatim>\<open>pd.DataFrame()\<close>, \<^verbatim>\<open>.empty\<close>, \<^verbatim>\<open>from_dict(d, orient='index', columns=[c])\<close>,
  \<^verbatim>\<open>.copy()\<close>, \<^verbatim>\<open>.values\<close> and \<^verbatim>\<open>.insert(loc, column, value)\<close>.
\<close>

record 'v data_frame =
  df_index :: "string list"
  df_columns :: "(string \<times> 'v list) list"

definition DataFrame :: "'v data_frame" where
  "DataFrame = \<lparr>df_index = [], df_columns = []\<rparr>"

definition empty_df :: "'v data_frame \<Rightarrow> bool" where
  "empty_df df = (df_index df = [] \<or> df_columns df = [])"

definition column_names :: "'v data_frame \<Rightarrow> string list" where
  "column_names df = map fst (df_columns df)"

text \<open>A Python dict is an association list in insertion order.\<close>

definition from_dict :: "(string \<times> 'v) list \<Rightarrow> string \<Rightarrow> 'v data_frame" where
  "from_dict d c = \<lparr>df_index = map fst d, df_columns = [(c, map snd d)]\<rparr>"

definition copy_df :: "'v data_frame \<Rightarrow> 'v data_frame" where
  "copy_df df = df"

text \<open>\<^verbatim>\<open>.values\<close> is the two-dimensional array of the cells, one list per row, with no labels.\<close>

definition values_of :: "'v data_frame \<Rightarrow> 'v list list" where
  "values_of df = map (\<lambda>i. map (\<lambda>c. snd c ! i) (df_columns df)) [0..<length (df_index df)]"

text \<open>
  \<^verbatim>\<open>df.insert(loc, column, value)\<close> with the default \<^verbatim>\<open>allow_duplicates=False\<close>: an
  existing column label is refused, the array must have one row per row of the frame and be
  one column wide, and \<open>loc\<close> must be a position of the column list.
\<close>

definition insert_column ::
  "'v data_frame \<Rightarrow> nat \<Rightarrow> string \<Rightarrow> 'v list list \<Rightarrow> exn + 'v data_frame" where
  "insert_column df loc column val =
     (if column \<in> set (column_names df) then Inl ValueError
      else if length val \<noteq> length (df_index df) then Inl ValueError
      else if loc > length (df_columns df) then Inl IndexError
      else if \<not> list_all (\<lambda>row. length row = 1) val then Inl ValueError
      else Inr (df\<lparr>df_columns :=
                  take loc (df_columns df) @ [(column, map hd val)] @ drop loc (df_columns df)\<rparr>))"

section \<open>The GluonTS collaborators\<close>

text \<open>
  \<^verbatim>\<open>make_evaluation_predictions(dataset, predictor, num_samples)\<close> returns two iterators,
  the forecasts and the observed series. An iterator is modelled by what consuming it
  gives: its elements, or the exception raised on the way. The call is a parameter
  \<open>mep\<close> of the functions below, and so is the configured evaluator
  \<^verbatim>\<open>Evaluator(quantiles=[0.1, 0.5, 0.9])\<close>, called on the two iterators and
  \<^verbatim>\<open>num_series\<close>; it returns the aggregate metrics (a dict from metric name to value) and
  the per-item metrics.
\<close>

type_synonym 'a iter = "exn + 'a list"

type_synonym ('d, 'p, 'f, 's) mep =
  "'d list \<Rightarrow> 'p \<Rightarrow> nat \<Rightarrow> exn + ('f iter \<times> 's iter)"

type_synonym ('f, 's, 'v, 'm) evaluator =
  "'s iter \<Rightarrow> 'f iter \<Rightarrow> nat \<Rightarrow> exn + ((string \<times> 'v) list \<times> 'm)"

section \<open>The comparison helper\<close>

text \<open>
  The body of the \<^verbatim>\<open>for\<close> loop of \<^verbatim>\<open>evaluat_models_from_dict\<close>, over the pairs that
  \<^verbatim>\<open>zip(predictors, predictor_names)\<close> yields, with the frame \<open>df\<close> built so far.
\<close>

fun evaluat_loop ::
  "('d, 'p, 'f, 's) mep \<Rightarrow> ('f, 's, 'v, 'm) evaluator \<Rightarrow> 'd list \<Rightarrow> nat \<Rightarrow>
   ('p \<times> string) list \<Rightarrow> 'v data_frame \<Rightarrow> exn + 'v data_frame" where
  "evaluat_loop mep evaluator data num_samples [] df = Inr df"
| "evaluat_loop mep evaluator data num_samples ((predictor, predictor_name) # rest) df =
     (case mep data predictor num_samples of
        Inl e \<Rightarrow> Inl e
      | Inr (forecast_it, ts_it) \<Rightarrow>
          (case evaluator ts_it forecast_it (length data) of
             Inl e \<Rightarrow> Inl e
           | Inr (deepar_agg_metrics, item_metrics) \<Rightarrow>
               (let evaluation = from_dict deepar_agg_metrics predictor_name in
                if empty_df df
                then evaluat_loop mep evaluator data num_samples rest (copy_df evaluation)
                else (case insert_column df (length (df_columns df)) predictor_name
                             (values_of evaluation) of
                        Inl e \<Rightarrow> Inl e
                      | Inr df' \<Rightarrow> evaluat_loop mep evaluator data num_samples rest df'))))"

definition evaluat_models_from_dict ::
  "('d, 'p, 'f, 's) mep \<Rightarrow> ('f, 's, 'v, 'm) evaluator \<Rightarrow> 'd list \<Rightarrow> 'p list \<Rightarrow>
   string list \<Rightarrow> nat \<Rightarrow> exn + 'v data_frame" where
  "evaluat_models_from_dict mep evaluator data predictors predictor_names num_samples =
     evaluat_loop mep evaluator data num_samples (zip predictors predictor_names) DataFrame"

text \<open>
  What one turn of the loop asks of the collaborators: the aggregate metrics of one
  predictor, or the exception raised by either call. It is used to state the theorems.
\<close>

definition agg_metrics_of ::
  "('d, 'p, 'f, 's) mep \<Rightarrow> ('f, 's, 'v, 'm) evaluator \<Rightarrow> 'd list \<Rightarrow> nat \<Rightarrow> 'p \<Rightarrow>
   exn + (string \<times> 'v) list" where
  "agg_metrics_of mep evaluator data num_samples predictor =
     (case mep data predictor num_samples of
        Inl e \<Rightarrow> Inl e
      | Inr (forecast_it, ts_it) \<Rightarrow>
          (case evaluator ts_it forecast_it (length data) of
             Inl e \<Rightarrow> Inl e
           | Inr (agg_metrics, item_metrics) \<Rightarrow> Inr agg_metrics))"

text \<open>The metric names of a predictor, and its metric values with the names dropped.\<close>

definition metric_names ::
  "('d, 'p, 'f, 's) mep \<Rightarrow> ('f, 's, 'v, 'm) evaluator \<Rightarrow> 'd list \<Rightarrow> nat \<Rightarrow> 'p \<Rightarrow>
   string list" where
  "metric_names mep evaluator data num_samples predictor =
     (case agg_metrics_of mep evaluator data num_samples predictor of
        Inl e \<Rightarrow> [] | Inr m \<Rightarrow> map fst m)"

definition metric_values ::
  "('d, 'p, 'f, 's) mep \<Rightarrow> ('f, 's, 'v, 'm) evaluator \<Rightarrow> 'd list \<Rightarrow> nat \<Rightarrow> 'p \<Rightarrow>
   'v list" where
  "metric_values mep evaluator data num_samples predictor =
     (case agg_metrics_of mep evaluator data num_samples predictor of
        Inl e \<Rightarrow> [] | Inr m \<Rightarrow> map snd m)"

definition metric_column ::
  "('d, 'p, 'f, 's) mep \<Rightarrow> ('f, 's, 'v, 'm) evaluator \<Rightarrow> 'd list \<Rightarrow> nat \<Rightarrow> 'p \<times> string \<Rightarrow>
   string \<times> 'v list" where
  "metric_column mep evaluator data num_samples pn =
     (snd pn, metric_values mep evaluator data num_samples (fst pn))"

text \<open>
  Collaborators to run the helpers on: a series is a list of numbers and the forecast of
  predictor \<open>p\<close> for a series is \<open>p\<close> times its sum. Predictor \<open>0\<close> fails when it is
  asked for forecasts, the forecasts of predictor \<open>7\<close> fail when they are read, and the
  series fail when they are read if one of them is empty. The evaluator reports two
  metrics, in an order that depends on the forecasts.
\<close>

definition sample_mep :: "(nat list, nat, nat, nat list) mep" where
  "sample_mep data p n =
     (if p = 0 then Inl (LibraryError ''predict'')
      else Inr (if p = 7 then Inl (LibraryError ''forecast'')
                else Inr (map (\<lambda>d. p * sum_list d) data),
                if [] \<in> set data then Inl (LibraryError ''series'') else Inr data))"

definition sample_evaluator :: "(nat, nat list, int, unit) evaluator" where
  "sample_evaluator ts_it forecast_it num_series =
     (case ts_it of
        Inl e \<Rightarrow> Inl e
      | Inr ts \<Rightarrow>
          (case forecast_it of
             Inl e \<Rightarrow> Inl e
           | Inr fs \<Rightarrow>
               (let metrics = [(''MSE'', int (sum_list fs)), (''num_series'', int num_series)]
                in Inr (if even (sum_list fs) then rev metrics else metrics, ()))))"

section \<open>The plotting helper\<close>

text \<open>
  What \<^verbatim>\<open>plot_forecast\<close> draws is the list of the matplotlib calls it makes, in order.
  A series is the list of its observed values; \<^verbatim>\<open>ts[-336:]\<close> keeps the last 336 of
  them, or all of them when there are fewer. \<^verbatim>\<open>forecast.plot(prediction_intervals, color='g')\<close>
  is the library's drawing of the median and of one band per interval.
\<close>

datatype ('f, 'v) plot_command =
    Subplots nat nat "nat \<times> nat"
  | PlotSeries "'v list"
  | PlotForecast 'f "real list" string
  | Grid string
  | Legend "string list" string
  | Show

definition last_n :: "nat \<Rightarrow> 'a list \<Rightarrow> 'a list" where
  "last_n n xs = drop (length xs - n) xs"

text \<open>\<^verbatim>\<open>xs[0]\<close> on a Python list.\<close>

definition first_item :: "'a list \<Rightarrow> exn + 'a" where
  "first_item xs = (case xs of [] \<Rightarrow> Inl IndexError | x # rest \<Rightarrow> Inr x)"

text \<open>
  \<open>fstr\<close> is Python's formatting of a float inside an f-string. The series iterator is
  consumed and indexed before the forecast iterator, as the statements are ordered.
\<close>

definition plot_forecast ::
  "(real \<Rightarrow> string) \<Rightarrow> ('d, 'p, 'f, 'v list) mep \<Rightarrow> 'p \<Rightarrow> 'd list \<Rightarrow>
   exn + ('f, 'v) plot_command list" where
  "plot_forecast fstr mep predictor test_data =
     (let prediction_intervals = [50, 90];
          legend = [''observations'', ''median prediction''] @
                   rev (map (\<lambda>k. fstr k @ ''% prediction interval'') prediction_intervals)
      in case mep test_data predictor 100 of
           Inl e \<Rightarrow> Inl e
         | Inr (forecast_it, ts_it) \<Rightarrow>
             (case ts_it of
                Inl e \<Rightarrow> Inl e
              | Inr tss \<Rightarrow>
                  (case first_item tss of
                     Inl e \<Rightarrow> Inl e
                   | Inr ts \<Rightarrow>
                       (case forecast_it of
                          Inl e \<Rightarrow> Inl e
                        | Inr forecasts \<Rightarrow>
                            (case first_item forecasts of
                               Inl e \<Rightarrow> Inl e
                             | Inr forecast \<Rightarrow>
                                 Inr [Subplots 1 1 (10, 7),
                                      PlotSeries (last_n 336 ts),
                                      PlotForecast forecast prediction_intervals ''g'',
                                      Grid ''both'',
                                      Legend legend ''upper left'',
                                      Show])))))"

text \<open>
  The library's contract the claims about datasets rest on: the two iterators of
  \<^verbatim>\<open>make_evaluation_predictions\<close> yield one element per entry of the dataset.
\<close>

definition one_per_series :: "('d, 'p, 'f, 's) mep \<Rightarrow> bool" where
  "one_per_series mep =
     (\<forall>data p n forecast_it ts_it. mep data p n = Inr (forecast_it, ts_it) \<longrightarrow>
        (\<forall>fs. forecast_it = Inr fs \<longrightarrow> length fs = length data) \<and>
        (\<forall>tss. ts_it = Inr tss \<longrightarrow> length tss = length data))"

definition sample_fstr :: "real \<Rightarrow> string" where
  "sample_fstr k = (if k = 50 then ''50.0'' else if k = 90 then ''90.0'' else ''?'')"

section \<open>Uploading to S3\<close>

text \<open>\<^verbatim>\<open>s.split(c)\<close> and \<^verbatim>\<open>sep.join(parts)\<close> on Python strings, and \<^verbatim>\<open>xs[i]\<close> for \<open>i \<ge> 0\<close>.\<close>

fun str_split :: "char \<Rightarrow> string \<Rightarrow> string list" where
  "str_split c [] = [[]]"
| "str_split c (x # xs) =
     (if x = c then [] # str_split c xs
      else (case str_split c xs of [] \<Rightarrow> [[x]] | s # ss \<Rightarrow> (x # s) # ss))"

fun str_join :: "string \<Rightarrow> string list \<Rightarrow> string" where
  "str_join sep [] = []"
| "str_join sep [s] = s"
| "str_join sep (s # t # ss) = s @ sep @ str_join sep (t # ss)"

definition item :: "'a list \<Rightarrow> nat \<Rightarrow> exn + 'a" where
  "item xs i = (if i < length xs then Inr (xs ! i) else Inl IndexError)"

text \<open>
  The calls \<^verbatim>\<open>copy_to_s3\<close> makes outside the notebook, over a state \<open>'w\<close> of the
  bucket and of the local disk: listing the keys of a bucket under a prefix
  (\<^verbatim>\<open>buk.objects.filter(Prefix=path)\<close>), opening a local file for reading, and
  \<^verbatim>\<open>buk.put_object(Key=path, Body=data)\<close>, the only one that changes the state.
\<close>

record ('w, 'b) services =
  objects_filter :: "'w \<Rightarrow> string \<Rightarrow> string \<Rightarrow> exn + string list"
  open_rb :: "'w \<Rightarrow> string \<Rightarrow> exn + 'b"
  put_object :: "'w \<Rightarrow> string \<Rightarrow> string \<Rightarrow> 'b \<Rightarrow> exn + 'w"

datatype s3_event =
    Print string
  | CallFilter string string
  | CallOpen string
  | CallPutObject string string

text \<open>
  The result is what the call returns or raises, the state it leaves, and the calls and
  prints it made. \<open>s3_bucket\<close> is the notebook's global of that name, used in the message.
\<close>

definition copy_to_s3 ::
  "string \<Rightarrow> ('w, 'b) services \<Rightarrow> string \<Rightarrow> string \<Rightarrow> bool \<Rightarrow> 'w \<Rightarrow>
   (exn + unit) \<times> 'w \<times> s3_event list" where
  "copy_to_s3 s3_bucket s3 local_file s3_path override w =
     (if \<not> prefix ''s3://'' s3_path then (Inl AssertionError, w, [])
      else
        (let split = str_split CHR ''/'' s3_path in
         (case item split 2 of
            Inl e \<Rightarrow> (Inl e, w, [])
          | Inr bucket \<Rightarrow>
              (let path = str_join ''/'' (drop 3 split);
                   listing = [CallFilter bucket path]
               in (case objects_filter s3 w bucket path of
                     Inl e \<Rightarrow> (Inl e, w, listing)
                   | Inr found \<Rightarrow>
                       (if length found > 0 \<and> \<not> override
                        then (Inr (), w,
                              listing @
                              [Print (''File s3://'' @ s3_bucket @ ''/'' @ s3_path @
                                      '' already exists.'' @ [CHR 0x0A] @
                                      ''Set override to upload anyway.'' @ [CHR 0x0A])])
                        else
                          (let said = listing @
                                 (if length found > 0
                                  then [Print ''Overwriting existing file''] else []) @
                                 [CallOpen local_file]
                           in (case open_rb s3 w local_file of
                                 Inl e \<Rightarrow> (Inl e, w, said)
                               | Inr data \<Rightarrow>
                                   (let said' = said @
                                          [Print (''Uploading file to '' @ s3_path),
                                           CallPutObject bucket path]
                                    in (case put_object s3 w bucket path data of
                                          Inl e \<Rightarrow> (Inl e, w, said')
                                        | Inr w' \<Rightarrow> (Inr (), w', said')))))))))))"

text \<open>
  A store to run \<^verbatim>\<open>copy_to_s3\<close> on: buckets, objects keyed by bucket and key, and
  local files. Listing and writing fail on a bucket that does not exist, writing fails on
  an empty key, opening fails on a file that does not exist.
\<close>

record sample_world =
  sw_buckets :: "string list"
  sw_objects :: "((string \<times> string) \<times> string) list"
  sw_files :: "(string \<times> string) list"

definition sample_s3 :: "(sample_world, string) services" where
  "sample_s3 =
     \<lparr>objects_filter = (\<lambda>w b pre.
          if b \<in> set (sw_buckets w)
          then Inr (map (\<lambda>ob. snd (fst ob))
                      (filter (\<lambda>ob. fst (fst ob) = b \<and> prefix pre (snd (fst ob)))
                         (sw_objects w)))
          else Inl (LibraryError ''NoSuchBucket'')),
      open_rb = (\<lambda>w f.
          case map_of (sw_files w) f of
            None \<Rightarrow> Inl (LibraryError ''FileNotFoundError'')
          | Some d \<Rightarrow> Inr d),
      put_object = (\<lambda>w b k d.
          if k = [] then Inl (LibraryError ''ParamValidationError'')
          else if b \<in> set (sw_buckets w)
          then Inr (w\<lparr>sw_objects :=
                        ((b, k), d) # filter (\<lambda>ob. fst ob \<noteq> (b, k)) (sw_objects w)\<rparr>)
          else Inl (LibraryError ''NoSuchBucket''))\<rparr>"

definition sample_world :: sample_world where
  "sample_world =
     \<lparr>sw_buckets = [''bkt''],
      sw_objects = [((''bkt'', ''gluonts/train/train.csv''), ''old'')],
      sw_files = [(''train.csv'', ''new'')]\<rparr>"

section \<open>The loaded table and the datasets\<close>

text \<open>
  The table \<^verbatim>\<open>df\<close> read from the CSV has the timestamps (strings) as index and one
  column \<^verbatim>\<open>value\<close>: it is the list of its rows. \<^verbatim>\<open>df[:label]\<close> and
  \<^verbatim>\<open>df.value[:label]\<close> slice by label: the rows up to the right bound of the label. On
  an increasing index the bound is the number of labels up to \<open>label\<close>; otherwise the
  label must occur, in one run, and the bound is the end of the run; on a decreasing index
  a missing label is located from the other end; anything else is a \<^verbatim>\<open>KeyError\<close>.
\<close>

type_synonym 'v table = "(string \<times> 'v) list"

definition slice_bound_right :: "string list \<Rightarrow> string \<Rightarrow> exn + nat" where
  "slice_bound_right idx label =
     (if sorted idx then Inr (length (filter (\<lambda>k. k \<le> label) idx))
      else if label \<in> set idx then
        (let first = length (takeWhile (\<lambda>k. k \<noteq> label) idx);
             stop = length idx - length (takeWhile (\<lambda>k. k \<noteq> label) (rev idx))
         in if length (filter (\<lambda>k. k = label) idx) = stop - first then Inr stop
            else Inl KeyError)
      else if sorted (rev idx)
        then Inr (length idx - length (filter (\<lambda>k. k < label) idx))
      else Inl KeyError)"

definition slice_to :: "string \<Rightarrow> 'v table \<Rightarrow> exn + 'v table" where
  "slice_to label df =
     (case slice_bound_right (map fst df) label of
        Inl e \<Rightarrow> Inl e
      | Inr stop \<Rightarrow> Inr (take stop df))"

text \<open>A GluonTS dataset: the records passed to \<^verbatim>\<open>ListDataset\<close> and the frequency.\<close>

record 'v data_entry =
  start :: string
  target :: "'v list"

record 'v list_dataset =
  entries :: "'v data_entry list"
  freq :: string

definition ListDataset :: "'v data_entry list \<Rightarrow> string \<Rightarrow> 'v list_dataset" where
  "ListDataset data_iter f = \<lparr>entries = data_iter, freq = f\<rparr>"

text \<open>
  The two datasets of the forecasting notebook. In each dict, \<^verbatim>\<open>df.index[0]\<close> is
  evaluated before the slice.
\<close>

definition dataset_to :: "string \<Rightarrow> 'v table \<Rightarrow> exn + 'v list_dataset" where
  "dataset_to label df =
     (case first_item (map fst df) of
        Inl e \<Rightarrow> Inl e
      | Inr s \<Rightarrow>
          (case slice_to label df of
             Inl e \<Rightarrow> Inl e
           | Inr rows \<Rightarrow> Inr (ListDataset [\<lparr>start = s, target = map snd rows\<rparr>] ''5min'')))"

definition training_data :: "'v table \<Rightarrow> exn + 'v list_dataset" where
  "training_data df = dataset_to ''2015-04-05 00:00:00'' df"

definition test_data :: "'v table \<Rightarrow> exn + 'v list_dataset" where
  "test_data df = dataset_to ''2015-04-15 00:00:00'' df"

text \<open>The two tables of the SageMaker notebook, written to \<^verbatim>\<open>train.csv\<close> and \<^verbatim>\<open>test.csv\<close>.\<close>

definition train :: "'v table \<Rightarrow> exn + 'v table" where
  "train df = slice_to ''2015-04-05 00:00:00'' df"

definition test :: "'v table \<Rightarrow> exn + 'v table" where
  "test df = slice_to ''2015-04-15 00:00:00'' df"

text \<open>A table to build the datasets from.\<close>

definition sample_table :: "nat table" where
  "sample_table =
     [(''2015-02-26 21:42:53'', 57), (''2015-04-04 23:57:53'', 43),
      (''2015-04-05 00:02:53'', 30), (''2015-04-14 23:57:53'', 9),
      (''2015-04-15 00:02:53'', 21)]"

text \<open>The bucket and the key that \<^verbatim>\<open>copy_to_s3\<close> takes from its path, named for the theorems.\<close>

definition bucket_of :: "string \<Rightarrow> string" where
  "bucket_of s3_path = str_split CHR ''/'' s3_path ! 2"

definition key_of :: "string \<Rightarrow> string" where
  "key_of s3_path = str_join ''/'' (drop 3 (str_split CHR ''/'' s3_path))"

section \<open>The notebooks as straight-line programs\<close>

text \<open>
  A notebook is the list of its top-level statements in cell order. A statement is what it
  does, the names it reads and the names it binds. Running the list keeps the names bound
  so far, with the text of those bound to a string literal; a statement that reads an
  unbound name raises \<^verbatim>\<open>NameError\<close>. Each statement runs once and leaves one event;
  \<^verbatim>\<open>pd.read_csv(filepath_or_buffer=url, header=h, index_col=i)\<close> leaves the address it
  fetched.
\<close>

datatype kind =
    Import | Assign | AssignStr string | ReadCsv nat nat | Display | PlotTable
  | Configure | Define | BuildDataset | NewPredictor | Predict | Consume | NewEvaluator
  | Evaluate | CallPlotForecast | NewEstimator | Train | MakeDirs | Serialize | Compare
  | Inspect | NewSession | Call | Format | SliceTable | WriteCsv | NewResource | Upload
  | ReadBack | CloudFit | NewTuner | TunerFit | Compound | Deploy | EndpointPredict
  | DeleteEndpoint

type_synonym stmt = "kind \<times> string list \<times> string list"

datatype event = Ran kind | Fetched string nat nat

definition event_of :: "kind \<Rightarrow> string list \<Rightarrow> (string \<times> string option) list \<Rightarrow> event" where
  "event_of k rs env =
     (case k of
        ReadCsv h i \<Rightarrow>
          (case rs of
             [] \<Rightarrow> Ran k
           | v # rest \<Rightarrow> (case map_of env v of Some (Some u) \<Rightarrow> Fetched u h i | _ \<Rightarrow> Ran k))
      | _ \<Rightarrow> Ran k)"

definition bindings :: "kind \<Rightarrow> string list \<Rightarrow> (string \<times> string option) list" where
  "bindings k ws = map (\<lambda>v. (v, case k of AssignStr s \<Rightarrow> Some s | _ \<Rightarrow> None)) ws"

fun run :: "stmt list \<Rightarrow> (string \<times> string option) list \<Rightarrow> exn + event list" where
  "run [] env = Inr []"
| "run ((k, rs, ws) # rest) env =
     (if list_all (\<lambda>v. v \<in> set (map fst env)) rs
      then (case run rest (bindings k ws @ env) of
              Inl e \<Rightarrow> Inl e
            | Inr evs \<Rightarrow> Inr (event_of k rs env # evs))
      else Inl NameError)"

definition kind_of :: "event \<Rightarrow> kind" where
  "kind_of ev = (case ev of Ran k \<Rightarrow> k | Fetched u h i \<Rightarrow> ReadCsv h i)"

text \<open>Every \<open>a\<close> of the list comes before every \<open>b\<close>: no \<open>a\<close> follows a \<open>b\<close>.\<close>

fun all_before :: "'a \<Rightarrow> 'a \<Rightarrow> 'a list \<Rightarrow> bool" where
  "all_before a b [] = True"
| "all_before a b (x # xs) =
     (if x = b then a \<notin> set xs \<and> all_before a b xs else all_before a b xs)"

text \<open>The kinds of the statements that bind a name.\<close>

definition binders :: "string \<Rightarrow> stmt list \<Rightarrow> kind list" where
  "binders v stmts = map fst (filter (\<lambda>s. v \<in> set (snd (snd s))) stmts)"

definition is_fetch :: "event \<Rightarrow> bool" where
  "is_fetch ev = (case ev of Fetched u h i \<Rightarrow> True | Ran k \<Rightarrow> False)"

definition fetches :: "stmt list \<Rightarrow> exn + event list" where
  "fetches stmts = (case run stmts [] of Inl e \<Rightarrow> Inl e | Inr evs \<Rightarrow> Inr (filter is_fetch evs))"

definition url :: string where
  "url = ''https://raw.githubusercontent.com/numenta/NAB/master/data/realTweets/Twitter_volume_AMZN.csv''"

text \<open>The forecasting notebook.\<close>

definition forecast_notebook :: "stmt list" where
  "forecast_notebook =
   [(Import, [], [''mxnet'', ''gluonts'']),
    (Display, [''mxnet''], []),
    (Import, [], [''pd'', ''np'', ''plt'', ''gpu'', ''cpu'', ''num_gpus'', ''to_pandas'',
                  ''DeepAREstimator'', ''SimpleFeedForwardEstimator'', ''ListDataset'',
                  ''Trainer'', ''make_evaluation_predictions'', ''backtest_metrics'',
                  ''pathlib'', ''json'', ''boto3'', ''csv'']),
    (Assign, [], [''EPOCHS'']),
    (AssignStr url, [], [''url'']),
    (ReadCsv 0 0, [''url'', ''pd''], [''df'']),
    (Display, [''df''], []),
    (PlotTable, [''df''], []),
    (Import, [], [''rcParams'']),
    (Configure, [''rcParams''], []),
    (Define, [], [''plot_forecast'']),
    (BuildDataset, [''ListDataset'', ''df''], [''training_data'']),
    (BuildDataset, [''ListDataset'', ''df''], [''test_data'']),
    (Import, [], [''SeasonalNaivePredictor'', ''Evaluator'']),
    (NewPredictor, [''SeasonalNaivePredictor''], [''naive_predictor'']),
    (Predict, [''make_evaluation_predictions'', ''test_data'', ''naive_predictor''],
       [''forecast_it_baseline'', ''ts_it_baseline'']),
    (Consume, [''forecast_it_baseline''], [''forecasts_baseline'']),
    (Consume, [''ts_it_baseline''], [''tss_baseline'']),
    (NewEvaluator, [''Evaluator''], [''evaluator'']),
    (Evaluate, [''evaluator'', ''tss_baseline'', ''forecasts_baseline'', ''test_data''],
       [''agg_metrics_baseline'', ''item_metrics'']),
    (CallPlotForecast, [''plot_forecast'', ''naive_predictor'', ''test_data'',
                        ''make_evaluation_predictions'', ''plt''], []),
    (Display, [''agg_metrics_baseline''], []),
    (Import, [], [''DistributionOutput'', ''StudentTOutput'']),
    (NewEstimator, [''DeepAREstimator'', ''StudentTOutput'', ''Trainer'', ''EPOCHS''],
       [''deepar_estimator'']),
    (Train, [''deepar_estimator'', ''training_data''], [''deepar_predictor'']),
    (CallPlotForecast, [''plot_forecast'', ''deepar_predictor'', ''test_data'',
                        ''make_evaluation_predictions'', ''plt''], []),
    (Import, [], [''os'']),
    (MakeDirs, [''os''], []),
    (Serialize, [''deepar_predictor'', ''pathlib''], []),
    (Serialize, [''deepar_predictor'', ''pathlib''], []),
    (Import, [], [''make_evaluation_predictions'', ''Evaluator'']),
    (Predict, [''make_evaluation_predictions'', ''test_data'', ''deepar_predictor''],
       [''forecast_it'', ''ts_it'']),
    (Evaluate, [''Evaluator'', ''ts_it'', ''forecast_it'', ''training_data''],
       [''deepar_agg_metrics'', ''item_metrics'']),
    (Display, [''deepar_agg_metrics''], []),
    (Display, [''deepar_agg_metrics'', ''agg_metrics_baseline''], []),
    (NewEstimator, [''SimpleFeedForwardEstimator'', ''Trainer'', ''EPOCHS''], [''mlp_estimator'']),
    (Train, [''mlp_estimator'', ''training_data''], [''mlp_predictor'']),
    (CallPlotForecast, [''plot_forecast'', ''mlp_predictor'', ''test_data'',
                        ''make_evaluation_predictions'', ''plt''], []),
    (Import, [], [''make_evaluation_predictions'', ''Evaluator'']),
    (Define, [], [''evaluat_models_from_dict'']),
    (Compare, [''evaluat_models_from_dict'', ''test_data'', ''deepar_predictor'',
               ''mlp_predictor'', ''naive_predictor'', ''make_evaluation_predictions'',
               ''Evaluator'', ''pd''], []),
    (Inspect, [''gluonts''], []),
    (Inspect, [''deepar_predictor''], [])]"

text \<open>
  The SageMaker notebook. The read-back after the upload opens the object the notebook
  has just written to its own bucket; the compound statements (\<^verbatim>\<open>if\<close>, \<^verbatim>\<open>for\<close>,
  \<^verbatim>\<open>class\<close>) are one statement each.
\<close>

definition sagemaker_notebook :: "stmt list" where
  "sagemaker_notebook =
   [(Import, [], [''pd'', ''gluonts'', ''np'', ''plt'', ''pathlib'', ''json'', ''boto3'', ''s3fs'',
                  ''csv'', ''sagemaker'']),
    (NewSession, [''sagemaker''], [''sagemaker_session'']),
    (Call, [''sagemaker_session''], [''s3_bucket'']),
    (Format, [''s3_bucket''], [''s3_train_data_path'']),
    (Format, [''s3_bucket''], [''s3_test_data_path'']),
    (Display, [''s3_bucket''], []),
    (AssignStr url, [], [''url'']),
    (ReadCsv 0 0, [''url'', ''pd''], [''df'']),
    (SliceTable, [''df''], [''train'']),
    (WriteCsv, [''train''], []),
    (SliceTable, [''df''], [''test'']),
    (WriteCsv, [''test''], []),
    (NewResource, [''boto3''], [''s3'']),
    (Define, [], [''copy_to_s3'']),
    (Upload, [''copy_to_s3'', ''s3_train_data_path'', ''s3'', ''s3_bucket''], []),
    (Upload, [''copy_to_s3'', ''s3_test_data_path'', ''s3'', ''s3_bucket''], []),
    (NewResource, [''s3fs''], [''s3filesystem'']),
    (ReadBack, [''s3filesystem'', ''s3_train_data_path''], [''fp'']),
    (Import, [], [''sagemaker'', ''MXNet'']),
    (NewSession, [''sagemaker''], [''sagemaker_session'']),
    (Call, [''sagemaker''], [''role'']),
    (NewEstimator, [''MXNet'', ''role''], [''mxnet_estimator'']),
    (CloudFit, [''mxnet_estimator'', ''s3_train_data_path'', ''s3_test_data_path''], []),
    (Import, [], [''HyperparameterTuner'', ''ContinuousParameter'', ''IntegerParameter'']),
    (NewTuner, [''HyperparameterTuner'', ''mxnet_estimator'', ''IntegerParameter'',
                ''ContinuousParameter''], [''tuner'']),
    (TunerFit, [''tuner'', ''s3_train_data_path'', ''s3_test_data_path''], []),
    (Call, [''tuner''], [''tuning_job_name'']),
    (NewResource, [''boto3''], [''sage_client'']),
    (Call, [''sage_client'', ''tuning_job_name''], [''tuning_job_result'']),
    (Call, [''tuning_job_result''], [''status'']),
    (Compound, [''status''], []),
    (Call, [''tuning_job_result''], [''job_count'']),
    (Display, [''job_count''], []),
    (Call, [''tuning_job_result''], [''is_minimize'']),
    (Call, [''tuning_job_result''], [''objective_name'']),
    (Import, [], [''pd'']),
    (Call, [''sagemaker'', ''tuning_job_name''], [''job_analytics'']),
    (Call, [''job_analytics''], [''full_df'']),
    (Compound, [''full_df'', ''is_minimize'', ''pd''], [''df'']),
    (Display, [''df''], []),
    (Import, [], [''bokeh'', ''figure'', ''show'', ''HoverTool'']),
    (Configure, [''bokeh''], []),
    (Call, [''job_analytics''], [''ranges'']),
    (Assign, [], [''figures'']),
    (Define, [], [''HoverHelper'']),
    (Call, [''HoverHelper'', ''job_analytics''], [''hover'']),
    (Compound, [''ranges'', ''figure'', ''hover'', ''objective_name'', ''df'', ''figures''],
       [''hp_name'', ''hp_range'', ''categorical_args'', ''is_num'', ''vals'', ''p'']),
    (Display, [''show'', ''bokeh'', ''figures''], []),
    (Deploy, [''tuner''], [''tuned_endpoint'']),
    (Call, [''test''], [''input_data'']),
    (EndpointPredict, [''tuned_endpoint'', ''input_data''], [''result'']),
    (Display, [''result''], []),
    (DeleteEndpoint, [''tuned_endpoint''], [])]"

section \<open>The calls of the repository and their handlers\<close>

text \<open>
  Where an exception goes is a matter of the calls a piece of code makes and of the
  \<^verbatim>\<open>try\<close> blocks around them. The code of the repository is written down as that
  skeleton: every call expression in evaluation order, under the \<^verbatim>\<open>if\<close>, \<^verbatim>\<open>for\<close>,
  \<^verbatim>\<open>try\<close> and \<^verbatim>\<open>return\<close> statements that enclose it, and a call of a function of the
  repository with the body of that function. A call is implemented by a library or cloud
  API (pandas, matplotlib, GluonTS, MXNet, boto3, s3fs, SageMaker, bokeh, the modules that
  \<^verbatim>\<open>import\<close> runs, and the iterators and containers these return) or by the Python
  language itself (operations on \<^verbatim>\<open>str\<close>, \<^verbatim>\<open>list\<close> and \<^verbatim>\<open>dict\<close> values, \<^verbatim>\<open>print\<close>,
  \<^verbatim>\<open>len\<close>, \<^verbatim>\<open>float\<close>, \<^verbatim>\<open>open\<close>, \<^verbatim>\<open>assert\<close>). Assignments of literals and
  \<^verbatim>\<open>def\<close> and \<^verbatim>\<open>class\<close> statements make no call.
\<close>

datatype origin = Library | Builtin

datatype code =
    CallOf origin string
  | Try "code list" "code list"
  | Branch "code list" "code list"
  | Loop "code list"
  | Invoke string "code list"
  | Return

datatype outcome = Normal | Returned | Raised exn

text \<open>The first failure of a library call during an execution, if there was one.\<close>

fun first_failure :: "exn option \<Rightarrow> exn option \<Rightarrow> exn option" where
  "first_failure (Some e) later = Some e"
| "first_failure None later = later"

text \<open>
  \<open>exec c lf out\<close>: the statement \<open>c\<close> can run with outcome \<open>out\<close>, and \<open>lf\<close> is the
  first exception that a library call raised on the way. Any call may return or raise any
  exception; a branch may go either way and a loop may make any number of turns. A
  \<^verbatim>\<open>try\<close> with a bare \<^verbatim>\<open>except\<close> runs its handler on every exception of its body. A
  \<^verbatim>\<open>return\<close> ends the enclosing function, whose call then completes.
\<close>

inductive exec :: "code \<Rightarrow> exn option \<Rightarrow> outcome \<Rightarrow> bool"
  and execs :: "code list \<Rightarrow> exn option \<Rightarrow> outcome \<Rightarrow> bool" where
  CallReturns: "exec (CallOf who name) None Normal"
| LibraryRaises: "exec (CallOf Library name) (Some e) (Raised e)"
| BuiltinRaises: "exec (CallOf Builtin name) None (Raised e)"
| TryPasses: "execs body lf out \<Longrightarrow> \<forall>e. out \<noteq> Raised e \<Longrightarrow> exec (Try body handler) lf out"
| TryHandles: "execs body lf (Raised e) \<Longrightarrow> execs handler lf' out \<Longrightarrow>
               exec (Try body handler) (first_failure lf lf') out"
| BranchThen: "execs yes lf out \<Longrightarrow> exec (Branch yes no) lf out"
| BranchElse: "execs no lf out \<Longrightarrow> exec (Branch yes no) lf out"
| LoopEnds: "exec (Loop body) None Normal"
| LoopTurns: "execs body lf Normal \<Longrightarrow> exec (Loop body) lf' out \<Longrightarrow>
              exec (Loop body) (first_failure lf lf') out"
| LoopLeaves: "execs body lf out \<Longrightarrow> out \<noteq> Normal \<Longrightarrow> exec (Loop body) lf out"
| InvokeReturns: "execs body lf out \<Longrightarrow> \<forall>e. out \<noteq> Raised e \<Longrightarrow>
                  exec (Invoke name body) lf Normal"
| InvokeRaises: "execs body lf (Raised e) \<Longrightarrow> exec (Invoke name body) lf (Raised e)"
| ReturnStmt: "exec Return None Returned"
| Done: "execs [] None Normal"
| Next: "exec c lf Normal \<Longrightarrow> execs cs lf' out \<Longrightarrow> execs (c # cs) (first_failure lf lf') out"
| Stops: "exec c lf out \<Longrightarrow> out \<noteq> Normal \<Longrightarrow> execs (c # cs) lf out"

text \<open>Code that makes no library call, and code in which no \<^verbatim>\<open>try\<close> encloses one.\<close>

fun library_free :: "code \<Rightarrow> bool" where
  "library_free (CallOf who name) = (who = Builtin)"
| "library_free (Try body handler) = (list_all library_free body \<and> list_all library_free handler)"
| "library_free (Branch yes no) = (list_all library_free yes \<and> list_all library_free no)"
| "library_free (Loop body) = list_all library_free body"
| "library_free (Invoke name body) = list_all library_free body"
| "library_free Return = True"

fun unguarded :: "code \<Rightarrow> bool" where
  "unguarded (CallOf who name) = True"
| "unguarded (Try body handler) = (list_all library_free body \<and> list_all unguarded handler)"
| "unguarded (Branch yes no) = (list_all unguarded yes \<and> list_all unguarded no)"
| "unguarded (Loop body) = list_all unguarded body"
| "unguarded (Invoke name body) = list_all unguarded body"
| "unguarded Return = True"

text \<open>The \<^verbatim>\<open>try\<close> blocks of a piece of code, each with its handler.\<close>

fun tries :: "code \<Rightarrow> (code list \<times> code list) list" where
  "tries (CallOf who name) = []"
| "tries (Try body handler) =
     (body, handler) # concat (map tries body) @ concat (map tries handler)"
| "tries (Branch yes no) = concat (map tries yes) @ concat (map tries no)"
| "tries (Loop body) = concat (map tries body)"
| "tries (Invoke name body) = concat (map tries body)"
| "tries Return = []"

text \<open>The statements that are one call.\<close>

fun is_call :: "code \<Rightarrow> bool" where
  "is_call (CallOf who name) = True"
| "is_call c = False"

text \<open>The functions of the repository.\<close>

definition plot_forecast_code :: "code list" where
  "plot_forecast_code =
   [Loop [CallOf Builtin ''format k''],
    CallOf Builtin ''list[::-1]'',
    CallOf Builtin ''list + list'',
    CallOf Library ''make_evaluation_predictions'',
    CallOf Library ''plt.subplots'',
    CallOf Library ''list(ts_it)'',
    CallOf Builtin ''list[0]'',
    CallOf Library ''ts[-336:]'',
    CallOf Library ''ts.plot'',
    CallOf Library ''list(forecast_it)'',
    CallOf Builtin ''list[0]'',
    CallOf Library ''forecast.plot'',
    CallOf Library ''plt.grid'',
    CallOf Library ''plt.legend'',
    CallOf Library ''plt.show'']"

definition evaluat_models_from_dict_code :: "code list" where
  "evaluat_models_from_dict_code =
   [CallOf Library ''pd.DataFrame'',
    CallOf Builtin ''zip'',
    Loop [CallOf Library ''make_evaluation_predictions'',
          CallOf Library ''Evaluator'',
          CallOf Library ''len(data)'',
          CallOf Library ''evaluator(ts_it, forecast_it)'',
          CallOf Library ''pd.DataFrame.from_dict'',
          CallOf Library ''df.empty'',
          Branch [CallOf Library ''evaluation.copy'']
                 [CallOf Library ''df.columns'',
                  CallOf Builtin ''len'',
                  CallOf Library ''evaluation.values'',
                  CallOf Library ''df.insert'']],
    Return]"

text \<open>
  The \<^verbatim>\<open>with\<close> statement of \<^verbatim>\<open>copy_to_s3\<close> is over a file object, whose exit closes
  the file and suppresses nothing.
\<close>

definition copy_to_s3_code :: "code list" where
  "copy_to_s3_code =
   [CallOf Builtin ''s3_path.startswith'',
    CallOf Builtin ''assert'',
    CallOf Builtin ''s3_path.split'',
    CallOf Builtin ''split[2]'',
    CallOf Builtin ''split[3:]'',
    CallOf Builtin ''str.join'',
    CallOf Library ''s3.Bucket'',
    CallOf Library ''buk.objects.filter'',
    CallOf Library ''list(objects)'',
    CallOf Builtin ''len'',
    Branch [Branch [CallOf Builtin ''str.format'', CallOf Builtin ''print'', Return]
                   [CallOf Builtin ''print'']]
           [],
    CallOf Builtin ''open'',
    CallOf Builtin ''str.format'',
    CallOf Builtin ''print'',
    CallOf Library ''buk.put_object'',
    CallOf Builtin ''file.__exit__'']"

definition is_num_code :: "code list" where
  "is_num_code = [Try [CallOf Builtin ''float'', Return] [Return]]"

definition hovertool_code :: "code list" where
  "hovertool_code =
   [CallOf Library ''tuner.tuning_ranges'',
    CallOf Builtin ''dict.keys'',
    Loop [CallOf Builtin ''str % k'', CallOf Builtin ''tooltips.append''],
    CallOf Library ''HoverTool'',
    Return]"

definition tools_code :: "code list" where
  "tools_code = [Invoke ''hovertool'' hovertool_code, Return]"

text \<open>The cells of the forecasting notebook, top to bottom.\<close>

definition forecast_notebook_code :: "code list" where
  "forecast_notebook_code =
   [CallOf Library ''import mxnet'',
    CallOf Library ''import gluonts'',
    CallOf Builtin ''print'',
    CallOf Library ''import pandas'',
    CallOf Library ''import numpy'',
    CallOf Library ''import matplotlib.pyplot'',
    CallOf Library ''from mxnet import gpu, cpu'',
    CallOf Library ''from mxnet.context import num_gpus'',
    CallOf Library ''from gluonts.dataset.util import to_pandas'',
    CallOf Library ''from gluonts.model.deepar import DeepAREstimator'',
    CallOf Library ''from gluonts.model.simple_feedforward import SimpleFeedForwardEstimator'',
    CallOf Library ''from gluonts.dataset.common import ListDataset'',
    CallOf Library ''from gluonts.trainer import Trainer'',
    CallOf Library ''from gluonts.evaluation.backtest import make_evaluation_predictions, backtest_metrics'',
    CallOf Library ''import pathlib'',
    CallOf Library ''import json'',
    CallOf Library ''import boto3'',
    CallOf Library ''import csv'',
    CallOf Library ''pd.read_csv'',
    CallOf Library ''df.head'',
    CallOf Library ''display'',
    CallOf Library ''df[:100]'',
    CallOf Library ''plot'',
    CallOf Library ''display'',
    CallOf Library ''from pylab import rcParams'',
    CallOf Library ''rcParams[figure.figsize] ='',
    CallOf Library ''df.index[0]'',
    CallOf Library ''df.value[:label]'',
    CallOf Library ''ListDataset'',
    CallOf Library ''df.index[0]'',
    CallOf Library ''df.value[:label]'',
    CallOf Library ''ListDataset'',
    CallOf Library ''from gluonts.model.seasonal_naive import *'',
    CallOf Library ''from gluonts.evaluation import Evaluator'',
    CallOf Library ''SeasonalNaivePredictor'',
    CallOf Library ''make_evaluation_predictions'',
    CallOf Library ''list(forecast_it_baseline)'',
    CallOf Library ''list(ts_it_baseline)'',
    CallOf Library ''Evaluator'',
    CallOf Builtin ''iter'',
    CallOf Builtin ''iter'',
    CallOf Library ''len(test_data)'',
    CallOf Library ''evaluator(tss, forecasts)'',
    Invoke ''plot_forecast'' plot_forecast_code,
    CallOf Library ''display'',
    CallOf Library ''from gluonts.distribution import DistributionOutput, StudentTOutput'',
    CallOf Library ''StudentTOutput'',
    CallOf Library ''Trainer'',
    CallOf Library ''DeepAREstimator'',
    CallOf Library ''deepar_estimator.train'',
    Invoke ''plot_forecast'' plot_forecast_code,
    CallOf Library ''import os'',
    CallOf Library ''os.makedirs'',
    CallOf Library ''pathlib.Path'',
    CallOf Library ''serialize_prediction_net'',
    CallOf Library ''pathlib.Path'',
    CallOf Library ''serialize'',
    CallOf Library ''from gluonts.evaluation.backtest import make_evaluation_predictions'',
    CallOf Library ''from gluonts.evaluation import Evaluator'',
    CallOf Library ''make_evaluation_predictions'',
    CallOf Library ''Evaluator'',
    CallOf Library ''len(training_data)'',
    CallOf Library ''evaluator(ts_it, forecast_it)'',
    CallOf Library ''display'',
    CallOf Builtin ''dict[MSE]'',
    CallOf Builtin ''dict[MSE]'',
    CallOf Builtin ''print'',
    CallOf Library ''Trainer'',
    CallOf Library ''SimpleFeedForwardEstimator'',
    CallOf Library ''mlp_estimator.train'',
    Invoke ''plot_forecast'' plot_forecast_code,
    CallOf Library ''from gluonts.evaluation.backtest import make_evaluation_predictions'',
    CallOf Library ''from gluonts.evaluation import Evaluator'',
    Invoke ''evaluat_models_from_dict'' evaluat_models_from_dict_code,
    CallOf Library ''display'',
    CallOf Builtin ''__bases__[0]'',
    CallOf Builtin ''__bases__[0]'',
    CallOf Library ''display'',
    CallOf Library ''collect_params'',
    CallOf Library ''display'']"

text \<open>The cells of the SageMaker notebook, top to bottom.\<close>

definition sagemaker_notebook_code :: "code list" where
  "sagemaker_notebook_code =
   [CallOf Library ''import pandas'',
    CallOf Library ''import gluonts'',
    CallOf Library ''import numpy'',
    CallOf Library ''import matplotlib.pyplot'',
    CallOf Library ''import pathlib'',
    CallOf Library ''import json'',
    CallOf Library ''import boto3'',
    CallOf Library ''import s3fs'',
    CallOf Library ''import csv'',
    CallOf Library ''import sagemaker'',
    CallOf Library ''sagemaker.Session'',
    CallOf Library ''default_bucket'',
    CallOf Builtin ''str.format'',
    CallOf Builtin ''str.format'',
    CallOf Builtin ''print'',
    CallOf Library ''pd.read_csv'',
    CallOf Library ''df[:label]'',
    CallOf Library ''train.to_csv'',
    CallOf Library ''df[:label]'',
    CallOf Library ''test.to_csv'',
    CallOf Library ''boto3.resource'',
    CallOf Builtin ''str + str'',
    Invoke ''copy_to_s3'' copy_to_s3_code,
    CallOf Builtin ''str + str'',
    Invoke ''copy_to_s3'' copy_to_s3_code,
    CallOf Library ''s3fs.S3FileSystem'',
    CallOf Builtin ''str + str'',
    CallOf Library ''s3filesystem.open'',
    CallOf Library ''fp.readline'',
    CallOf Builtin ''bytes.decode'',
    CallOf Builtin ''str[:100]'',
    CallOf Builtin ''str + str'',
    CallOf Builtin ''print'',
    CallOf Library ''fp.__exit__'',
    CallOf Library ''import sagemaker'',
    CallOf Library ''from sagemaker.mxnet import MXNet'',
    CallOf Library ''sagemaker.Session'',
    CallOf Library ''sagemaker.get_execution_role'',
    CallOf Library ''MXNet'',
    CallOf Library ''mxnet_estimator.fit'',
    CallOf Library ''from sagemaker.tuner import HyperparameterTuner'',
    CallOf Library ''IntegerParameter'',
    CallOf Library ''IntegerParameter'',
    CallOf Library ''IntegerParameter'',
    CallOf Library ''ContinuousParameter'',
    CallOf Library ''HyperparameterTuner'',
    CallOf Library ''tuner.fit'',
    CallOf Library ''tuner.latest_tuning_job.job_name'',
    CallOf Library ''boto3.Session'',
    CallOf Library ''client'',
    CallOf Library ''describe_hyper_parameter_tuning_job'',
    CallOf Builtin ''dict[key]'',
    Branch [CallOf Builtin ''print''] [],
    CallOf Builtin ''dict[key]'',
    CallOf Builtin ''dict[key]'',
    CallOf Builtin ''str % job_count'',
    CallOf Builtin ''print'',
    CallOf Builtin ''dict[key]'',
    CallOf Builtin ''dict[key]'',
    CallOf Builtin ''dict[key]'',
    CallOf Builtin ''dict[key]'',
    CallOf Builtin ''dict[key]'',
    CallOf Builtin ''dict[key]'',
    CallOf Library ''import pandas'',
    CallOf Library ''sagemaker.HyperparameterTuningJobAnalytics'',
    CallOf Library ''job_analytics.dataframe'',
    CallOf Library ''len(full_df)'',
    Branch [CallOf Library ''full_df[FinalObjectiveValue]'',
            CallOf Builtin ''float'',
            CallOf Builtin ''- float'',
            CallOf Library ''series > float'',
            CallOf Library ''full_df[mask]'',
            CallOf Library ''len(df)'',
            Branch [CallOf Library ''df.sort_values'',
                    CallOf Library ''len(df)'',
                    CallOf Builtin ''str % len'',
                    CallOf Builtin ''print'',
                    CallOf Library ''df[FinalObjectiveValue]'',
                    CallOf Library ''min'',
                    CallOf Library ''df[FinalObjectiveValue]'',
                    CallOf Library ''max'',
                    CallOf Builtin ''print'',
                    CallOf Library ''pd.set_option'']
                   [CallOf Builtin ''print'']]
           [],
    CallOf Library ''display'',
    CallOf Library ''import bokeh'',
    CallOf Library ''import bokeh.io'',
    CallOf Library ''bokeh.io.output_notebook'',
    CallOf Library ''from bokeh.plotting import figure, show'',
    CallOf Library ''from bokeh.models import HoverTool'',
    CallOf Library ''job_analytics.tuning_ranges'',
    Invoke ''HoverHelper.__init__'' [],
    CallOf Builtin ''dict.items'',
    Loop [CallOf Builtin ''dict.get'',
          Branch [CallOf Builtin ''dict[Values]'',
                  Loop [Invoke ''is_num'' is_num_code],
                  CallOf Builtin ''sum'',
                  CallOf Builtin ''len'',
                  Branch [CallOf Builtin ''str % hp_name'', CallOf Builtin ''print'']
                         [CallOf Builtin ''dict[x_range] ='']]
                 [],
          CallOf Builtin ''str % hp_name'',
          Invoke ''hover.tools'' tools_code,
          CallOf Library ''figure'',
          CallOf Library ''p.circle'',
          CallOf Builtin ''figures.append''],
    CallOf Library ''bokeh.layouts.Column'',
    CallOf Library ''show'',
    CallOf Library ''tuner.deploy'',
    CallOf Library ''test.value.tolist'',
    CallOf Library ''test.index.tolist'',
    CallOf Library ''tuned_endpoint.predict'',
    CallOf Library ''display'',
    CallOf Library ''tuned_endpoint.delete_endpoint'']"

definition repository :: "code list list" where
  "repository =
     [forecast_notebook_code, sagemaker_notebook_code, plot_forecast_code,
      evaluat_models_from_dict_code, copy_to_s3_code, is_num_code, hovertool_code,
      tools_code]"

section \<open>Properties of the comparison helper\<close>

lemma values_of_from_dict: "map hd (values_of (from_dict m c)) = map snd m"
  by (simp add: values_of_def from_dict_def map_nth comp_def) (metis length_map map_nth)

lemma values_of_from_dict_shape:
  "length (values_of (from_dict m c)) = length m"
  "list_all (\<lambda>row. length row = 1) (values_of (from_dict m c))"
  by (simp_all add: values_of_def from_dict_def list_all_iff)

lemma insert_column_at_end:
  "insert_column df (length (df_columns df)) c (values_of (from_dict m c')) =
     (if c \<in> set (column_names df) \<or> length m \<noteq> length (df_index df) then Inl ValueError
      else Inr (df\<lparr>df_columns := df_columns df @ [(c, map snd m)]\<rparr>))"
  using values_of_from_dict_shape(2) [of m c']
  by (simp add: insert_column_def values_of_from_dict values_of_from_dict_shape(1))

lemma evaluat_loop_Cons:
  "evaluat_loop mep evaluator data num_samples ((p, c) # rest) df =
     (case agg_metrics_of mep evaluator data num_samples p of
        Inl e \<Rightarrow> Inl e
      | Inr m \<Rightarrow>
          if empty_df df then evaluat_loop mep evaluator data num_samples rest (from_dict m c)
          else if c \<in> set (column_names df) \<or> length m \<noteq> length (df_index df)
               then Inl ValueError
               else evaluat_loop mep evaluator data num_samples rest
                      (df\<lparr>df_columns := df_columns df @ [(c, map snd m)]\<rparr>))"
  by (simp add: agg_metrics_of_def copy_df_def insert_column_at_end split: sum.splits prod.splits)

lemma evaluat_loop_nonempty:
  "\<not> empty_df df \<Longrightarrow> evaluat_loop mep evaluator data num_samples pairs df = Inr df' \<Longrightarrow>
   df_index df' = df_index df \<and>
   df_columns df' = df_columns df @ map (metric_column mep evaluator data num_samples) pairs"
proof (induction pairs arbitrary: df)
  case Nil
  then show ?case by simp
next
  case (Cons pc pairs)
  obtain p c where pc: "pc = (p, c)" by (cases pc)
  from Cons.prems(2) obtain m where
    m: "agg_metrics_of mep evaluator data num_samples p = Inr m"
    and ok: "\<not> (c \<in> set (column_names df) \<or> length m \<noteq> length (df_index df))"
    and rest: "evaluat_loop mep evaluator data num_samples pairs
                 (df\<lparr>df_columns := df_columns df @ [(c, map snd m)]\<rparr>) = Inr df'"
    using Cons.prems(1) unfolding pc evaluat_loop_Cons
    by (auto split: sum.splits if_splits)
  have ne: "\<not> empty_df (df\<lparr>df_columns := df_columns df @ [(c, map snd m)]\<rparr>)"
    using Cons.prems(1) by (simp add: empty_df_def)
  from Cons.IH [OF ne rest] show ?case
    by (simp add: pc metric_column_def metric_values_def m)
qed

declare evaluat_loop.simps(2) [simp del]

lemma evaluat_loop_append:
  "evaluat_loop mep evaluator data num_samples (xs @ ys) df =
     (case evaluat_loop mep evaluator data num_samples xs df of
        Inl e \<Rightarrow> Inl e
      | Inr df' \<Rightarrow> evaluat_loop mep evaluator data num_samples ys df')"
proof (induction xs arbitrary: df)
  case Nil
  then show ?case by simp
next
  case (Cons pc xs)
  obtain p c where pc: "pc = (p, c)" by (cases pc)
  show ?case
    by (simp add: pc evaluat_loop_Cons Cons.IH split: sum.splits)
qed

lemma evaluat_loop_raises:
  "(p, c) \<in> set pairs \<Longrightarrow> agg_metrics_of mep evaluator data num_samples p = Inl e \<Longrightarrow>
   \<exists>e'. evaluat_loop mep evaluator data num_samples pairs df = Inl e'"
proof (induction pairs arbitrary: df)
  case Nil
  then show ?case by simp
next
  case (Cons qc pairs)
  obtain q d where qc: "qc = (q, d)" by (cases qc)
  show ?case
  proof (cases "(p, c) = (q, d)")
    case True
    with Cons.prems(2) show ?thesis
      by (simp add: qc evaluat_loop_Cons)
  next
    case False
    with Cons.prems(1) qc have "(p, c) \<in> set pairs" by auto
    from Cons.IH [OF this Cons.prems(2)] show ?thesis
      unfolding qc evaluat_loop_Cons
      by (simp split: sum.splits)
  qed
qed

lemma evaluat_loop_returns:
  "\<not> empty_df df \<Longrightarrow>
   \<forall>pc \<in> set pairs. \<exists>m. agg_metrics_of mep evaluator data num_samples (fst pc) = Inr m \<and>
                            length m = length (df_index df) \<Longrightarrow>
   distinct (column_names df @ map snd pairs) \<Longrightarrow>
   \<exists>df'. evaluat_loop mep evaluator data num_samples pairs df = Inr df'"
proof (induction pairs arbitrary: df)
  case Nil
  then show ?case by simp
next
  case (Cons pc pairs)
  obtain p c where pc: "pc = (p, c)" by (cases pc)
  from Cons.prems(2) pc obtain m where
    m: "agg_metrics_of mep evaluator data num_samples p = Inr m"
    and len: "length m = length (df_index df)" by auto
  let ?df = "df\<lparr>df_columns := df_columns df @ [(c, map snd m)]\<rparr>"
  have fresh: "c \<notin> set (column_names df)"
    using Cons.prems(3) by (auto simp: pc)
  have ne: "\<not> empty_df ?df" using Cons.prems(1) by (simp add: empty_df_def)
  have all: "\<forall>pc \<in> set pairs. \<exists>m. agg_metrics_of mep evaluator data num_samples (fst pc) = Inr m \<and>
                            length m = length (df_index ?df)"
    using Cons.prems(2) by simp
  have dist: "distinct (column_names ?df @ map snd pairs)"
    using Cons.prems(3) by (auto simp: pc column_names_def)
  from Cons.IH [OF ne all dist] show ?case
    using Cons.prems(1) fresh len
    by (simp add: pc evaluat_loop_Cons m)
qed

lemma evaluat_models_from_dict_returns:
  assumes "distinct (map snd (zip predictors predictor_names))"
    and "\<forall>p \<in> set predictors. \<exists>m. agg_metrics_of mep evaluator data num_samples p = Inr m \<and>
            length m = Suc k"
  shows "\<exists>df. evaluat_models_from_dict mep evaluator data predictors predictor_names num_samples
            = Inr df"
proof (cases "zip predictors predictor_names")
  case Nil
  show ?thesis unfolding evaluat_models_from_dict_def Nil by simp
next
  case (Cons pc pairs)
  obtain p c where pc: "pc = (p, c)" by (cases pc)
  have sub: "\<forall>qc \<in> set (pc # pairs). fst qc \<in> set predictors"
    unfolding Cons [symmetric] by (auto dest: set_zip_leftD)
  with assms(2) pc obtain m where
    m: "agg_metrics_of mep evaluator data num_samples p = Inr m" and len: "length m = Suc k"
    by fastforce
  have ne: "\<not> empty_df (from_dict m c)"
    using len by (auto simp: empty_df_def from_dict_def)
  have all: "\<forall>qc \<in> set pairs. \<exists>m'. agg_metrics_of mep evaluator data num_samples (fst qc) = Inr m' \<and>
                            length m' = length (df_index (from_dict m c))"
    using sub assms(2) len by (simp add: from_dict_def)
  have dist: "distinct (column_names (from_dict m c) @ map snd pairs)"
    using assms(1) by (simp add: Cons pc column_names_def from_dict_def)
  from evaluat_loop_returns [OF ne all dist] show ?thesis
    by (simp add: evaluat_models_from_dict_def Cons pc evaluat_loop_Cons m empty_df_def
        DataFrame_def)
qed

lemma evaluat_models_from_dict_frame:
  assumes ret: "evaluat_models_from_dict mep evaluator data predictors predictor_names num_samples
            = Inr df"
    and first: "\<forall>p \<in> set (take 1 predictors).
            agg_metrics_of mep evaluator data num_samples p \<noteq> Inr []"
  shows "df_columns df =
           map (metric_column mep evaluator data num_samples) (zip predictors predictor_names) \<and>
         df_index df =
           (case zip predictors predictor_names of [] \<Rightarrow> []
            | pc # rest \<Rightarrow> metric_names mep evaluator data num_samples (fst pc))"
proof (cases "zip predictors predictor_names")
  case Nil
  show ?thesis
    using ret unfolding evaluat_models_from_dict_def Nil
    by (auto simp: DataFrame_def)
next
  case (Cons pc rest)
  obtain p c where pc: "pc = (p, c)" by (cases pc)
  have "p \<in> set (take 1 predictors)"
    using Cons pc by (cases predictors; cases predictor_names) auto
  with first have ne: "agg_metrics_of mep evaluator data num_samples p \<noteq> Inr []" by blast
  from ret obtain m where
    m: "agg_metrics_of mep evaluator data num_samples p = Inr m"
    and rest: "evaluat_loop mep evaluator data num_samples rest (from_dict m c) = Inr df"
    unfolding evaluat_models_from_dict_def Cons pc evaluat_loop_Cons
    by (auto simp: empty_df_def DataFrame_def split: sum.splits)
  from m ne have "m \<noteq> []" by auto
  then have "\<not> empty_df (from_dict m c)"
    by (simp add: empty_df_def from_dict_def)
  from evaluat_loop_nonempty [OF this rest] show ?thesis
    by (simp add: Cons pc from_dict_def metric_column_def metric_values_def
        metric_names_def m)
qed

lemma sample_metrics:
  "p \<noteq> 0 \<Longrightarrow> p \<noteq> 7 \<Longrightarrow> [] \<notin> set data \<Longrightarrow>
   agg_metrics_of sample_mep sample_evaluator data n p =
     Inr (let metrics = [(''MSE'', int (sum_list (map (\<lambda>d. p * sum_list d) data))),
                         (''num_series'', int (length data))]
          in if even (sum_list (map (\<lambda>d. p * sum_list d) data)) then rev metrics else metrics)"
  by (simp add: agg_metrics_of_def sample_mep_def sample_evaluator_def Let_def)

lemma sample_metrics_fail:
  "agg_metrics_of sample_mep sample_evaluator data n 0 = Inl (LibraryError ''predict'')"
  by (simp add: agg_metrics_of_def sample_mep_def)

lemma sample_run:
  "evaluat_models_from_dict sample_mep sample_evaluator [[1, 2]] [1, 2, 3]
     [''deepar'', ''mlp'', ''naive predictor''] 100 =
   Inr \<lparr>df_index = [''MSE'', ''num_series''],
        df_columns = [(''deepar'', [3, 1]), (''mlp'', [1, 6]), (''naive predictor'', [9, 1])]\<rparr>"
  by (simp add: evaluat_models_from_dict_def evaluat_loop_Cons sample_metrics empty_df_def
      DataFrame_def from_dict_def column_names_def)

subsection \<open>One column per pair of predictor and name\<close>

text \<open>
  Claim C1 says that for every list of predictors and every list of names the returned
  frame has one column per input predictor. It fails when the lists differ in length:
  \<^verbatim>\<open>zip\<close> stops at the shorter one. With two predictors and one name the frame has one
  column.
\<close>

theorem evaluat_models_from_dict_truncates:
  "evaluat_models_from_dict sample_mep sample_evaluator [[1, 2]] [1, 2] [''deepar''] 100 =
     Inr \<lparr>df_index = [''MSE'', ''num_series''], df_columns = [(''deepar'', [3, 1])]\<rparr> \<and>
   length [(''deepar'', [3::int, 1])] \<noteq> length [1::nat, 2]"
  by (simp add: evaluat_models_from_dict_def evaluat_loop_Cons sample_metrics empty_df_def
      DataFrame_def from_dict_def column_names_def)

text \<open>
  Claim C1, as amended: whenever the call returns a frame, and the evaluator reports at
  least one metric for the first predictor, the frame has one column per pair that
  \<^verbatim>\<open>zip(predictors, predictor_names)\<close> yields, in that order, labelled with the name of
  the pair; when the two lists have the same length, that is one column per predictor,
  labelled with the predictor's name.
\<close>

theorem evaluat_models_from_dict_columns:
  assumes "evaluat_models_from_dict mep evaluator data predictors predictor_names num_samples
            = Inr df"
    and "\<forall>p \<in> set (take 1 predictors).
            agg_metrics_of mep evaluator data num_samples p \<noteq> Inr []"
  shows "column_names df = take (length predictors) predictor_names \<and>
         length (df_columns df) = min (length predictors) (length predictor_names) \<and>
         (length predictors = length predictor_names \<longrightarrow>
            column_names df = predictor_names \<and> length (df_columns df) = length predictors)"
proof -
  have "column_names df = map snd (zip predictors predictor_names)"
    using evaluat_models_from_dict_frame [OF assms]
    by (simp add: column_names_def metric_column_def comp_def)
  also have "\<dots> = take (length predictors) predictor_names"
    by (simp add: map_snd_zip_take min_def)
  finally have cols: "column_names df = take (length predictors) predictor_names" .
  then have "length (column_names df) = min (length predictors) (length predictor_names)"
    by (simp add: min.commute)
  then have "length (df_columns df) = min (length predictors) (length predictor_names)"
    by (simp add: column_names_def)
  with cols show ?thesis by simp
qed

theorem evaluat_models_from_dict_columns_witness:
  "evaluat_models_from_dict sample_mep sample_evaluator [[1, 2]] [1, 2, 3]
     [''deepar'', ''mlp'', ''naive predictor''] 100 =
   Inr \<lparr>df_index = [''MSE'', ''num_series''],
        df_columns = [(''deepar'', [3, 1]), (''mlp'', [1, 6]), (''naive predictor'', [9, 1])]\<rparr> \<and>
   agg_metrics_of sample_mep sample_evaluator [[1, 2]] 100 1 \<noteq> Inr [] \<and>
   column_names \<lparr>df_index = [''MSE'', ''num_series''],
        df_columns = [(''deepar'', [3::int, 1]), (''mlp'', [1, 6]), (''naive predictor'', [9, 1])]\<rparr>
     = [''deepar'', ''mlp'', ''naive predictor'']"
proof -
  have h: "\<forall>p \<in> set (take 1 [1, 2, 3]).
      agg_metrics_of sample_mep sample_evaluator [[1, 2]] 100 p \<noteq> Inr []"
    by (simp add: sample_metrics)
  have m: "agg_metrics_of sample_mep sample_evaluator [[1, 2]] 100 1 \<noteq> Inr []"
    by (simp add: sample_metrics)
  from evaluat_models_from_dict_columns [OF sample_run h] sample_run m show ?thesis
    by simp
qed

subsection \<open>No partial result\<close>

text \<open>
  Claim C4: if evaluating one of the predictors that the loop reaches (one of the pairs of
  \<^verbatim>\<open>zip(predictors, predictor_names)\<close>) raises, in \<^verbatim>\<open>make_evaluation_predictions\<close> or
  in the evaluator, the whole call raises: no frame is returned, whatever the predictors
  before it produced.
\<close>

theorem evaluat_models_from_dict_raises:
  assumes "(p, c) \<in> set (zip predictors predictor_names)"
    and "agg_metrics_of mep evaluator data num_samples p = Inl e"
  shows "\<exists>e'. evaluat_models_from_dict mep evaluator data predictors predictor_names num_samples
           = Inl e'"
  unfolding evaluat_models_from_dict_def using assms by (rule evaluat_loop_raises)

theorem evaluat_models_from_dict_raises_witness:
  "(0, ''mlp'') \<in> set (zip [1, 0, 3] [''deepar'', ''mlp'', ''naive predictor'']) \<and>
   agg_metrics_of sample_mep sample_evaluator [[1, 2]] 100 0 = Inl (LibraryError ''predict'') \<and>
   (\<exists>e'. evaluat_models_from_dict sample_mep sample_evaluator [[1, 2]] [1, 0, 3]
            [''deepar'', ''mlp'', ''naive predictor''] 100 = Inl e')"
proof -
  have m: "(0, ''mlp'') \<in> set (zip [1, 0, 3] [''deepar'', ''mlp'', ''naive predictor''])"
    by simp
  from evaluat_models_from_dict_raises [OF m sample_metrics_fail] m sample_metrics_fail
  show ?thesis by blast
qed

subsection \<open>Columns are matched to rows by position\<close>

text \<open>
  Claim C10: in the frame returned, every column holds the metric values of its predictor
  in the order in which the evaluator reported them, the metric names dropped (the first
  column comes from \<^verbatim>\<open>from_dict\<close>, the others from the raw array \<^verbatim>\<open>evaluation.values\<close>),
  and the row labels are the metric names of the first predictor. The evaluator reports at
  least one metric for the first predictor.
\<close>

theorem evaluat_models_from_dict_positional:
  assumes "evaluat_models_from_dict mep evaluator data predictors predictor_names num_samples
            = Inr df"
    and "\<forall>p \<in> set (take 1 predictors).
            agg_metrics_of mep evaluator data num_samples p \<noteq> Inr []"
  shows "df_columns df =
           map (metric_column mep evaluator data num_samples) (zip predictors predictor_names) \<and>
         df_index df =
           (case zip predictors predictor_names of [] \<Rightarrow> []
            | pc # rest \<Rightarrow> metric_names mep evaluator data num_samples (fst pc))"
  using assms by (rule evaluat_models_from_dict_frame)

theorem evaluat_models_from_dict_positional_witness:
  "evaluat_models_from_dict sample_mep sample_evaluator [[1, 2]] [1, 2]
     [''deepar'', ''mlp''] 100 =
   Inr \<lparr>df_index = [''MSE'', ''num_series''],
        df_columns = [(''deepar'', [3, 1]), (''mlp'', [1, 6])]\<rparr> \<and>
   agg_metrics_of sample_mep sample_evaluator [[1, 2]] 100 1 = Inr [(''MSE'', 3), (''num_series'', 1)] \<and>
   agg_metrics_of sample_mep sample_evaluator [[1, 2]] 100 2 = Inr [(''num_series'', 1), (''MSE'', 6)] \<and>
   [(''deepar'', [3, 1]), (''mlp'', [1, 6])] =
     map (metric_column sample_mep sample_evaluator [[1, 2]] 100) (zip [1, 2] [''deepar'', ''mlp'']) \<and>
   [''MSE'', ''num_series''] = metric_names sample_mep sample_evaluator [[1, 2]] 100 1"
proof -
  have r: "evaluat_models_from_dict sample_mep sample_evaluator [[1, 2]] [1, 2]
     [''deepar'', ''mlp''] 100 =
   Inr \<lparr>df_index = [''MSE'', ''num_series''],
        df_columns = [(''deepar'', [3, 1]), (''mlp'', [1, 6])]\<rparr>"
    by (simp add: evaluat_models_from_dict_def evaluat_loop_Cons sample_metrics empty_df_def
      DataFrame_def from_dict_def column_names_def)
  have h: "\<forall>p \<in> set (take 1 [1, 2]).
      agg_metrics_of sample_mep sample_evaluator [[1, 2]] 100 p \<noteq> Inr []"
    by (simp add: sample_metrics)
  have m: "agg_metrics_of sample_mep sample_evaluator [[1, 2]] 100 1 = Inr [(''MSE'', 3), (''num_series'', 1)]"
     "agg_metrics_of sample_mep sample_evaluator [[1, 2]] 100 2 = Inr [(''num_series'', 1), (''MSE'', 6)]"
    by (simp_all add: sample_metrics)
  from evaluat_models_from_dict_positional [OF r h] r m show ?thesis
    by simp
qed

section \<open>Properties of the plotting helper\<close>

lemma last_n_suffix: "suffix (last_n n xs) xs"
  by (simp add: last_n_def suffix_drop)

lemma length_last_n: "length (last_n n xs) = min n (length xs)"
  by (simp add: last_n_def)

lemma sample_one_per_series: "one_per_series sample_mep"
  by (auto simp: one_per_series_def sample_mep_def split: if_splits)

lemma plot_forecast_drawn:
  "mep data predictor 100 = Inr (Inr (f # fs), Inr (ts # tss)) \<Longrightarrow>
   plot_forecast fstr mep predictor data =
     Inr [Subplots 1 1 (10, 7),
          PlotSeries (last_n 336 ts),
          PlotForecast f [50, 90] ''g'',
          Grid ''both'',
          Legend [''observations'', ''median prediction'',
                  fstr 90 @ ''% prediction interval'',
                  fstr 50 @ ''% prediction interval''] ''upper left'',
          Show]"
  by (simp add: plot_forecast_def first_item_def)

lemma one_per_series_nonempty:
  assumes "one_per_series mep" and "mep data predictor n = Inr (forecast_it, ts_it)"
  shows "forecast_it = Inr fs \<Longrightarrow> (fs = []) = (data = [])"
    and "ts_it = Inr tss \<Longrightarrow> (tss = []) = (data = [])"
  using assms unfolding one_per_series_def by (metis length_0_conv)+

text \<open>
  Claim C2: for every predictor and every dataset with at least one series,
  \<^verbatim>\<open>plot_forecast\<close> asks \<^verbatim>\<open>make_evaluation_predictions\<close> for forecasts with 100
  samples and, when the library returns them, draws for the first series only its last 336
  observed values (all of them when it has fewer) and the first forecast with the 50% and
  90% intervals around the median.
\<close>

theorem plot_forecast_renders:
  assumes "data \<noteq> []" and "one_per_series mep"
    and "mep data predictor 100 = Inr (Inr fs, Inr tss)"
  shows "fs \<noteq> [] \<and> tss \<noteq> [] \<and>
         plot_forecast fstr mep predictor data =
           Inr [Subplots 1 1 (10, 7),
                PlotSeries (last_n 336 (hd tss)),
                PlotForecast (hd fs) [50, 90] ''g'',
                Grid ''both'',
                Legend [''observations'', ''median prediction'',
                        fstr 90 @ ''% prediction interval'',
                        fstr 50 @ ''% prediction interval''] ''upper left'',
                Show] \<and>
         suffix (last_n 336 (hd tss)) (hd tss) \<and>
         length (last_n 336 (hd tss)) = min 336 (length (hd tss))"
proof -
  from one_per_series_nonempty [OF assms(2,3)] assms(1)
  have "fs \<noteq> []" "tss \<noteq> []" by simp_all
  then obtain f fs' ts tss' where "fs = f # fs'" "tss = ts # tss'"
    by (cases fs; cases tss) auto
  with assms(3) show ?thesis
    by (simp add: plot_forecast_drawn last_n_suffix length_last_n)
qed

theorem plot_forecast_renders_witness:
  "[[1, 2, 3], [4, 5]] \<noteq> ([] :: nat list list) \<and> one_per_series sample_mep \<and>
   sample_mep [[1, 2, 3], [4, 5]] 2 100 = Inr (Inr [12, 18], Inr [[1, 2, 3], [4, 5]]) \<and>
   plot_forecast sample_fstr sample_mep 2 [[1, 2, 3], [4, 5]] =
     Inr [Subplots 1 1 (10, 7),
          PlotSeries [1, 2, 3],
          PlotForecast 12 [50, 90] ''g'',
          Grid ''both'',
          Legend [''observations'', ''median prediction'',
                  ''90.0% prediction interval'', ''50.0% prediction interval''] ''upper left'',
          Show]"
proof -
  have d: "[[1, 2, 3], [4, 5]] \<noteq> ([] :: nat list list)" by simp
  have m: "sample_mep [[1, 2, 3], [4, 5]] 2 100 = Inr (Inr [12, 18], Inr [[1, 2, 3], [4, 5]])"
    by (simp add: sample_mep_def)
  from plot_forecast_renders [OF d sample_one_per_series m, of sample_fstr]
    sample_one_per_series m
  show ?thesis by (simp add: sample_fstr_def last_n_def)
qed

text \<open>
  Claim C8: \<^verbatim>\<open>plot_forecast\<close> indexes the first series and the first forecast without a
  check. On the empty dataset the call raises \<^verbatim>\<open>IndexError\<close>; on a dataset with at
  least one series it draws whenever the library returns, and any exception it raises is
  one the library raised.
\<close>

theorem plot_forecast_requires_series:
  assumes "one_per_series mep"
  shows "(data = [] \<and> mep data predictor 100 = Inr (forecast_it, Inr tss) \<longrightarrow>
            plot_forecast fstr mep predictor data = Inl IndexError) \<and>
         (data \<noteq> [] \<and> mep data predictor 100 = Inr (Inr fs, Inr tss) \<longrightarrow>
            (\<exists>drawn. plot_forecast fstr mep predictor data = Inr drawn)) \<and>
         (data \<noteq> [] \<and> plot_forecast fstr mep predictor data = Inl e \<longrightarrow>
            mep data predictor 100 = Inl e \<or>
            (\<exists>f t. mep data predictor 100 = Inr (f, t) \<and> (t = Inl e \<or> f = Inl e)))"
proof (intro conjI impI)
  assume a: "data = [] \<and> mep data predictor 100 = Inr (forecast_it, Inr tss)"
  then have m: "mep data predictor 100 = Inr (forecast_it, Inr tss)" and d: "data = []"
    by blast+
  from one_per_series_nonempty(2) [OF assms m refl] d have "tss = []" by simp
  with m show "plot_forecast fstr mep predictor data = Inl IndexError"
    by (simp add: plot_forecast_def first_item_def)
next
  assume a: "data \<noteq> [] \<and> mep data predictor 100 = Inr (Inr fs, Inr tss)"
  with one_per_series_nonempty [OF assms, of data predictor 100 "Inr fs" "Inr tss"]
  have "fs \<noteq> []" "tss \<noteq> []" by simp_all
  then obtain f fs' ts tss' where "fs = f # fs'" "tss = ts # tss'"
    by (cases fs; cases tss) auto
  with a show "\<exists>drawn. plot_forecast fstr mep predictor data = Inr drawn"
    by (simp add: plot_forecast_drawn)
next
  assume a: "data \<noteq> [] \<and> plot_forecast fstr mep predictor data = Inl e"
  show "mep data predictor 100 = Inl e \<or>
        (\<exists>f t. mep data predictor 100 = Inr (f, t) \<and> (t = Inl e \<or> f = Inl e))"
  proof (cases "mep data predictor 100")
    case (Inl e')
    with a show ?thesis by (simp add: plot_forecast_def)
  next
    case (Inr ft)
    obtain f t where ft: "ft = (f, t)" by (cases ft)
    note m = Inr [unfolded ft]
    show ?thesis
    proof (cases t)
      case (Inl e')
      with a m show ?thesis by (simp add: plot_forecast_def)
    next
      case tss: (Inr tss)
      with one_per_series_nonempty(2) [OF assms m] a have "tss \<noteq> []" by simp
      then obtain ts tss' where t': "tss = ts # tss'" by (cases tss) auto
      show ?thesis
      proof (cases f)
        case (Inl e')
        with a m tss t' show ?thesis by (simp add: plot_forecast_def first_item_def)
      next
        case fs: (Inr fs)
        with one_per_series_nonempty(1) [OF assms m] a have "fs \<noteq> []" by simp
        then obtain f' fs' where "fs = f' # fs'" by (cases fs) auto
        with a m tss t' fs show ?thesis by (simp add: plot_forecast_drawn)
      qed
    qed
  qed
qed

theorem plot_forecast_requires_series_witness:
  "one_per_series sample_mep \<and>
   sample_mep [] 2 100 = Inr (Inr [], Inr []) \<and>
   plot_forecast sample_fstr sample_mep 2 [] = Inl IndexError \<and>
   sample_mep [[1, 2, 3]] 2 100 = Inr (Inr [12], Inr [[1, 2, 3]]) \<and>
   (\<exists>drawn. plot_forecast sample_fstr sample_mep 2 [[1, 2, 3]] = Inr drawn) \<and>
   plot_forecast sample_fstr sample_mep 0 [[1, 2, 3]] = Inl (LibraryError ''predict'') \<and>
   sample_mep [[1, 2, 3]] 0 100 = Inl (LibraryError ''predict'')"
proof -
  have e: "sample_mep [] 2 100 = Inr (Inr [], Inr [])"
    and m: "sample_mep [[1, 2, 3]] 2 100 = Inr (Inr [12], Inr [[1, 2, 3]])"
    and f: "sample_mep [[1, 2, 3]] 0 100 = Inl (LibraryError ''predict'')"
    by (simp_all add: sample_mep_def)
  have p: "plot_forecast sample_fstr sample_mep 0 [[1, 2, 3]] = Inl (LibraryError ''predict'')"
    by (simp add: plot_forecast_def sample_mep_def)
  from plot_forecast_requires_series [OF sample_one_per_series, of "[]" 2 "Inr []" "[]" sample_fstr]
    plot_forecast_requires_series [OF sample_one_per_series, of "[[1, 2, 3]]" 2 _ "[[1, 2, 3]]" sample_fstr "[12]"]
    plot_forecast_requires_series [OF sample_one_per_series, of "[[1, 2, 3]]" 0 _ _ sample_fstr _ "LibraryError ''predict''"]
    sample_one_per_series e m f p
  show ?thesis by simp
qed

section \<open>Properties of the upload\<close>

lemma str_split_nonempty: "str_split c xs \<noteq> []"
  by (induction xs) (auto split: list.splits)

lemma str_split_s3:
  assumes "prefix ''s3://'' s3_path"
  shows "item (str_split CHR ''/'' s3_path) 2 = Inr (bucket_of s3_path)"
proof -
  from assms obtain rest where r: "s3_path = ''s3://'' @ rest"
    by (auto simp: prefix_def)
  obtain s ss where "str_split CHR ''/'' rest = s # ss"
    using str_split_nonempty [of "CHR ''/''" rest] by (cases "str_split CHR ''/'' rest") auto
  then show ?thesis
    by (simp add: r item_def bucket_of_def)
qed

lemma copy_to_s3_unfold:
  assumes "prefix ''s3://'' s3_path"
  shows "copy_to_s3 s3_bucket s3 local_file s3_path override w =
     (let bucket = bucket_of s3_path; path = key_of s3_path; listing = [CallFilter bucket path]
      in (case objects_filter s3 w bucket path of
            Inl e \<Rightarrow> (Inl e, w, listing)
          | Inr found \<Rightarrow>
              (if length found > 0 \<and> \<not> override
               then (Inr (), w,
                     listing @
                     [Print (''File s3://'' @ s3_bucket @ ''/'' @ s3_path @
                             '' already exists.'' @ [CHR 0x0A] @
                             ''Set override to upload anyway.'' @ [CHR 0x0A])])
               else
                 (let said = listing @
                        (if length found > 0 then [Print ''Overwriting existing file''] else []) @
                        [CallOpen local_file]
                  in (case open_rb s3 w local_file of
                        Inl e \<Rightarrow> (Inl e, w, said)
                      | Inr data \<Rightarrow>
                          (let said' = said @
                                 [Print (''Uploading file to '' @ s3_path),
                                  CallPutObject bucket path]
                           in (case put_object s3 w bucket path data of
                                 Inl e \<Rightarrow> (Inl e, w, said')
                               | Inr w' \<Rightarrow> (Inr (), w', said'))))))))"
  using assms str_split_s3 [OF assms]
  by (simp add: copy_to_s3_def key_of_def Let_def)

lemma sample_path:
  "prefix ''s3://'' ''s3://bkt/gluonts/train/train.csv''"
  "bucket_of ''s3://bkt/gluonts/train/train.csv'' = ''bkt''"
  "key_of ''s3://bkt/gluonts/train/train.csv'' = ''gluonts/train/train.csv''"
  by (simp_all add: bucket_of_def key_of_def)

lemma sample_listing:
  "objects_filter sample_s3 sample_world ''bkt'' ''gluonts/train/train.csv'' =
     Inr [''gluonts/train/train.csv'']"
  by (simp add: sample_s3_def sample_world_def)

text \<open>
  Claim C9: \<^verbatim>\<open>copy_to_s3\<close> fails its assertion on a path that does not start with
  \<^verbatim>\<open>s3://\<close>, and when the listing under the key finds at least one object and
  \<^verbatim>\<open>override\<close> is false it returns with the state as it was and without a call of
  \<^verbatim>\<open>put_object\<close>: an existing object is overwritten only when \<^verbatim>\<open>override\<close> is true.
\<close>

theorem copy_to_s3_no_overwrite:
  "(\<not> prefix ''s3://'' s3_path \<longrightarrow>
      copy_to_s3 s3_bucket s3 local_file s3_path override w = (Inl AssertionError, w, [])) \<and>
   (prefix ''s3://'' s3_path \<and>
    objects_filter s3 w (bucket_of s3_path) (key_of s3_path) = Inr found \<and> found \<noteq> [] \<and>
    \<not> override \<longrightarrow>
      (\<exists>out. copy_to_s3 s3_bucket s3 local_file s3_path override w = (Inr (), w, out) \<and>
             (\<forall>b k. CallPutObject b k \<notin> set out)))"
proof (intro conjI impI)
  assume "\<not> prefix ''s3://'' s3_path"
  then show "copy_to_s3 s3_bucket s3 local_file s3_path override w = (Inl AssertionError, w, [])"
    by (simp add: copy_to_s3_def)
next
  assume "prefix ''s3://'' s3_path \<and>
    objects_filter s3 w (bucket_of s3_path) (key_of s3_path) = Inr found \<and> found \<noteq> [] \<and>
    \<not> override"
  then show "\<exists>out. copy_to_s3 s3_bucket s3 local_file s3_path override w = (Inr (), w, out) \<and>
             (\<forall>b k. CallPutObject b k \<notin> set out)"
    by (simp add: copy_to_s3_unfold)
qed

theorem copy_to_s3_no_overwrite_witness:
  "\<not> prefix ''s3://'' ''bkt/train.csv'' \<and>
   copy_to_s3 ''bkt'' sample_s3 ''train.csv'' ''bkt/train.csv'' False sample_world =
     (Inl AssertionError, sample_world, []) \<and>
   prefix ''s3://'' ''s3://bkt/gluonts/train/train.csv'' \<and>
   objects_filter sample_s3 sample_world ''bkt'' ''gluonts/train/train.csv'' =
     Inr [''gluonts/train/train.csv''] \<and>
   (\<exists>out. copy_to_s3 ''bkt'' sample_s3 ''train.csv'' ''s3://bkt/gluonts/train/train.csv'' False
            sample_world = (Inr (), sample_world, out) \<and>
          (\<forall>b k. CallPutObject b k \<notin> set out))"
proof -
  have n: "\<not> prefix ''s3://'' ''bkt/train.csv''" by simp
  from copy_to_s3_no_overwrite
         [of "''bkt/train.csv''" "''bkt''" sample_s3 "''train.csv''" False sample_world]
       copy_to_s3_no_overwrite
         [of "''s3://bkt/gluonts/train/train.csv''" "''bkt''" sample_s3 "''train.csv''" False
             sample_world "[''gluonts/train/train.csv'']"]
       n sample_listing
  show ?thesis by (simp add: sample_path)
qed

text \<open>With \<^verbatim>\<open>override=True\<close> the same call replaces the object.\<close>

lemma copy_to_s3_override_run:
  "copy_to_s3 ''bkt'' sample_s3 ''train.csv'' ''s3://bkt/gluonts/train/train.csv'' True sample_world =
     (Inr (),
      sample_world\<lparr>sw_objects := [((''bkt'', ''gluonts/train/train.csv''), ''new'')]\<rparr>,
      [CallFilter ''bkt'' ''gluonts/train/train.csv'', Print ''Overwriting existing file'',
       CallOpen ''train.csv'',
       Print ''Uploading file to s3://bkt/gluonts/train/train.csv'',
       CallPutObject ''bkt'' ''gluonts/train/train.csv''])"
  by (simp add: copy_to_s3_unfold sample_path sample_listing Let_def)
     (simp add: sample_s3_def sample_world_def)

section \<open>Failures of the collaborators\<close>

lemma library_free_no_failure:
  shows "exec c lf out \<Longrightarrow> library_free c \<Longrightarrow> lf = None"
    and "execs cs lf out \<Longrightarrow> list_all library_free cs \<Longrightarrow> lf = None"
  by (induction rule: exec_execs.inducts) auto

lemma unguarded_propagates:
  shows "exec c lf out \<Longrightarrow> unguarded c \<Longrightarrow> lf = Some e \<Longrightarrow> out = Raised e"
    and "execs cs lf out \<Longrightarrow> list_all unguarded cs \<Longrightarrow> lf = Some e \<Longrightarrow> out = Raised e"
proof (induction arbitrary: e and e rule: exec_execs.inducts)
  case (TryPasses body lf out handler)
  then show ?case using library_free_no_failure(2) by fastforce
next
  case (TryHandles body lf x handler lf' out)
  from TryHandles.prems(1) have "list_all library_free body" by simp
  with TryHandles.hyps(1) have "lf = None" by (rule library_free_no_failure(2))
  with TryHandles show ?case by simp
next
  case (LoopTurns body lf lf' out)
  show ?case
  proof (cases lf)
    case None
    with LoopTurns show ?thesis by simp
  next
    case (Some x)
    with LoopTurns.IH(1) LoopTurns.prems(1) have "Normal = Raised x" by simp
    then show ?thesis by simp
  qed
next
  case (Next c lf cs lf' out)
  show ?case
  proof (cases lf)
    case None
    with Next show ?thesis by simp
  next
    case (Some x)
    with Next.IH(1) Next.prems(1) have "Normal = Raised x" by simp
    then show ?thesis by simp
  qed
qed auto

text \<open>A handler around a library call would swallow its failure.\<close>

lemma try_swallows: "exec (Try [CallOf Library name] []) (Some e) Normal"
proof -
  have "execs [CallOf Library name] (Some e) (Raised e)"
    by (rule Stops [OF LibraryRaises]) simp
  from TryHandles [OF this Done] show ?thesis by simp
qed

lemma execs_after_calls:
  "list_all is_call pre \<Longrightarrow> execs rest lf out \<Longrightarrow> execs (pre @ rest) lf out"
proof (induction pre)
  case Nil
  then show ?case by simp
next
  case (Cons c pre)
  then obtain who name where c: "c = CallOf who name" by (cases c) auto
  from Cons have "execs (pre @ rest) lf out" by simp
  from Next [OF CallReturns this, of who name] show ?case by (simp add: c)
qed

lemma repository_handlers:
  "list_all (\<lambda>prog. list_all unguarded prog \<and>
              list_all (\<lambda>t. t = ([CallOf Builtin ''float'', Return], [Return]))
                (concat (map tries prog))) repository"
  by code_simp

text \<open>
  Claim C3: in every piece of code of the repository (the cells of the two notebooks, with
  the functions they call, and each function on its own) a failure that arises inside a
  call of a library or cloud API ends the code with that same exception, whatever else
  the code does: no \<^verbatim>\<open>try\<close> block encloses such a call. The only \<^verbatim>\<open>try\<close> block of
  the repository is that of \<^verbatim>\<open>is_num\<close>, around the conversion \<^verbatim>\<open>float(x)\<close> of the
  language alone.
\<close>

theorem library_failures_propagate:
  assumes "prog \<in> set repository" and "execs prog (Some e) out"
  shows "out = Raised e \<and>
         list_all (\<lambda>t. t = ([CallOf Builtin ''float'', Return], [Return]))
           (concat (map tries prog))"
proof -
  from repository_handlers assms(1)
  have u: "list_all unguarded prog"
    and t: "list_all (\<lambda>t. t = ([CallOf Builtin ''float'', Return], [Return]))
              (concat (map tries prog))"
    by (auto simp: list_all_iff)
  from unguarded_propagates(2) [OF assms(2) u refl] t show ?thesis by simp
qed

text \<open>
  A failure of the listing in \<^verbatim>\<open>copy_to_s3\<close> ends the function, and through its first
  call the SageMaker notebook.
\<close>

lemma listing_fails:
  "execs copy_to_s3_code (Some e) (Raised e)"
proof -
  have "execs (drop 8 copy_to_s3_code) (Some e) (Raised e)"
    unfolding copy_to_s3_code_def by (simp, rule Stops [OF LibraryRaises]) simp
  moreover have "list_all is_call (take 8 copy_to_s3_code)"
    by (simp add: copy_to_s3_code_def)
  ultimately have "execs (take 8 copy_to_s3_code @ drop 8 copy_to_s3_code) (Some e) (Raised e)"
    by (rule execs_after_calls [rotated])
  then show ?thesis by simp
qed

theorem library_failures_propagate_witness:
  "sagemaker_notebook_code \<in> set repository \<and>
   execs sagemaker_notebook_code (Some (LibraryError ''NoSuchBucket''))
     (Raised (LibraryError ''NoSuchBucket'')) \<and>
   list_all (\<lambda>t. t = ([CallOf Builtin ''float'', Return], [Return]))
     (concat (map tries sagemaker_notebook_code))"
proof -
  let ?e = "LibraryError ''NoSuchBucket''"
  have m: "sagemaker_notebook_code \<in> set repository" by (simp add: repository_def)
  have "execs (drop 22 sagemaker_notebook_code) (Some ?e) (Raised ?e)"
    unfolding sagemaker_notebook_code_def
    by (simp, rule Stops [OF InvokeRaises [OF listing_fails]]) simp
  moreover have "list_all is_call (take 22 sagemaker_notebook_code)"
    by (simp add: sagemaker_notebook_code_def)
  ultimately have
    "execs (take 22 sagemaker_notebook_code @ drop 22 sagemaker_notebook_code) (Some ?e) (Raised ?e)"
    by (rule execs_after_calls [rotated])
  then have x: "execs sagemaker_notebook_code (Some ?e) (Raised ?e)" by simp
  from library_failures_propagate [OF m x] m x show ?thesis by simp
qed

section \<open>Properties of the datasets\<close>

lemma count_upto_mono:
  "a \<le> b \<Longrightarrow>
   length (filter (\<lambda>r. fst r \<le> a) df) \<le> length (filter (\<lambda>r. fst r \<le> (b::string)) df)"
  by (induction df) auto

lemma take_count_sorted:
  "sorted (map fst df) \<Longrightarrow>
   take (length (filter (\<lambda>r. fst r \<le> label) df)) df = filter (\<lambda>r. fst r \<le> (label::string)) df"
proof (induction df)
  case Nil
  then show ?case by simp
next
  case (Cons r df)
  show ?case
  proof (cases "fst r \<le> label")
    case True
    with Cons show ?thesis by simp
  next
    case False
    with Cons.prems have "\<forall>q \<in> set df. \<not> fst q \<le> label"
      by (auto dest: order_trans)
    then have "filter (\<lambda>r. fst r \<le> label) df = []"
      by (auto simp: filter_empty_conv)
    with False show ?thesis by simp
  qed
qed

lemma slice_to_sorted:
  "sorted (map fst df) \<Longrightarrow> slice_to label df = Inr (filter (\<lambda>r. fst r \<le> label) df)"
  by (simp add: slice_to_def slice_bound_right_def take_count_sorted comp_def)

lemma filter_upto_prefix:
  assumes "sorted (map fst df)" "a \<le> (b::string)"
  shows "prefix (filter (\<lambda>r. fst r \<le> a) df) (filter (\<lambda>r. fst r \<le> b) df)"
proof -
  let ?m = "length (filter (\<lambda>r. fst r \<le> a) df)"
  let ?n = "length (filter (\<lambda>r. fst r \<le> b) df)"
  have "?m \<le> ?n" using assms(2) by (rule count_upto_mono)
  then have "take ?m df = take ?m (take ?n df)" by (simp add: min_def)
  then have "prefix (take ?m df) (take ?n df)" by (metis take_is_prefix)
  then show ?thesis by (simp only: take_count_sorted [OF assms(1)])
qed

text \<open>
  Claim C5: on a loaded table that has a first row and whose timestamps increase, the
  training dataset and the test dataset are each one record; both records start at the
  first timestamp of the table; the training target is the values up to
  \<^verbatim>\<open>2015-04-05 00:00:00\<close>, the test target the values up to \<^verbatim>\<open>2015-04-15 00:00:00\<close>,
  and the first is a prefix of the second. The same holds of the two tables that the
  SageMaker notebook writes.
\<close>

theorem datasets_one_record_prefix:
  assumes "df \<noteq> []" and "sorted (map fst df)"
  shows "training_data df =
           Inr (ListDataset
                  [\<lparr>start = fst (hd df),
                    target = map snd (filter (\<lambda>r. fst r \<le> ''2015-04-05 00:00:00'') df)\<rparr>]
                  ''5min'') \<and>
         test_data df =
           Inr (ListDataset
                  [\<lparr>start = fst (hd df),
                    target = map snd (filter (\<lambda>r. fst r \<le> ''2015-04-15 00:00:00'') df)\<rparr>]
                  ''5min'') \<and>
         prefix (map snd (filter (\<lambda>r. fst r \<le> ''2015-04-05 00:00:00'') df))
                (map snd (filter (\<lambda>r. fst r \<le> ''2015-04-15 00:00:00'') df)) \<and>
         train df = Inr (filter (\<lambda>r. fst r \<le> ''2015-04-05 00:00:00'') df) \<and>
         test df = Inr (filter (\<lambda>r. fst r \<le> ''2015-04-15 00:00:00'') df) \<and>
         prefix (filter (\<lambda>r. fst r \<le> ''2015-04-05 00:00:00'') df)
                (filter (\<lambda>r. fst r \<le> ''2015-04-15 00:00:00'') df)"
proof -
  have le: "''2015-04-05 00:00:00'' \<le> ''2015-04-15 00:00:00''" by simp
  from assms(1) obtain r rest where df: "df = r # rest" by (cases df) auto
  have first: "first_item (map fst df) = Inr (fst (hd df))"
    by (simp add: df first_item_def)
  note p = filter_upto_prefix [OF assms(2) le]
  from p have "prefix (map snd (filter (\<lambda>r. fst r \<le> ''2015-04-05 00:00:00'') df))
               (map snd (filter (\<lambda>r. fst r \<le> ''2015-04-15 00:00:00'') df))"
    by (rule map_mono_prefix)
  with p show ?thesis
    by (simp add: training_data_def test_data_def dataset_to_def first train_def test_def
        slice_to_sorted [OF assms(2)])
qed

theorem datasets_one_record_prefix_witness:
  "sample_table \<noteq> [] \<and> sorted (map fst sample_table) \<and>
   training_data sample_table =
     Inr (ListDataset [\<lparr>start = ''2015-02-26 21:42:53'', target = [57, 43]\<rparr>] ''5min'') \<and>
   test_data sample_table =
     Inr (ListDataset [\<lparr>start = ''2015-02-26 21:42:53'', target = [57, 43, 30, 9]\<rparr>] ''5min'') \<and>
   prefix [57, 43 :: nat] [57, 43, 30, 9]"
proof -
  have n: "sample_table \<noteq> []" and s: "sorted (map fst sample_table)"
    by (simp_all add: sample_table_def)
  have f: "filter (\<lambda>r. fst r \<le> ''2015-04-05 00:00:00'') sample_table =
             [(''2015-02-26 21:42:53'', 57), (''2015-04-04 23:57:53'', 43)]"
     "filter (\<lambda>r. fst r \<le> ''2015-04-15 00:00:00'') sample_table =
             [(''2015-02-26 21:42:53'', 57), (''2015-04-04 23:57:53'', 43),
              (''2015-04-05 00:02:53'', 30), (''2015-04-14 23:57:53'', 9)]"
     "hd sample_table = (''2015-02-26 21:42:53'', 57)"
    by (simp_all add: sample_table_def)
  from datasets_one_record_prefix [OF n s] n s show ?thesis
    by (simp add: f)
qed

section \<open>Properties of the notebooks\<close>

text \<open>
  Claim C6: run from top to bottom, the forecasting notebook executes every statement
  once, in order, and no statement reads a name that is not yet bound. The table is
  fetched before any dataset is built and the datasets are built before any call of
  \<^verbatim>\<open>train\<close>; the two trained predictors are bound by \<^verbatim>\<open>train\<close> and the two metric
  dicts by the evaluator, so every use of a predictor follows the \<^verbatim>\<open>train\<close> that
  returned it and every display of metrics follows their evaluation. The SageMaker
  notebook runs in order in the same way.
\<close>

theorem forecast_notebook_order:
  "map_sum id (map kind_of) (run forecast_notebook []) = Inr (map fst forecast_notebook) \<and>
   map_sum id (map kind_of) (run sagemaker_notebook []) = Inr (map fst sagemaker_notebook) \<and>
   ReadCsv 0 0 \<in> set (map fst forecast_notebook) \<and>
   BuildDataset \<in> set (map fst forecast_notebook) \<and>
   Train \<in> set (map fst forecast_notebook) \<and>
   all_before (ReadCsv 0 0) BuildDataset (map fst forecast_notebook) \<and>
   all_before BuildDataset Train (map fst forecast_notebook) \<and>
   binders ''deepar_predictor'' forecast_notebook = [Train] \<and>
   binders ''mlp_predictor'' forecast_notebook = [Train] \<and>
   binders ''agg_metrics_baseline'' forecast_notebook = [Evaluate] \<and>
   binders ''deepar_agg_metrics'' forecast_notebook = [Evaluate]"
  by code_simp

text \<open>
  Claim C7: each notebook fetches input data once, by \<^verbatim>\<open>pd.read_csv\<close> on the address
  bound to \<^verbatim>\<open>url\<close> with \<^verbatim>\<open>header=0\<close> and \<^verbatim>\<open>index_col=0\<close>; the address is the same
  literal in both, an \<^verbatim>\<open>https\<close> address of the file \<^verbatim>\<open>Twitter_volume_AMZN.csv\<close>.
\<close>

theorem single_fetch_of_fixed_url:
  "fetches forecast_notebook = Inr [Fetched url 0 0] \<and>
   fetches sagemaker_notebook = Inr [Fetched url 0 0] \<and>
   url = ''https://raw.githubusercontent.com/numenta/NAB/master/data/realTweets/Twitter_volume_AMZN.csv'' \<and>
   prefix ''https://'' url \<and> suffix ''/Twitter_volume_AMZN.csv'' url"
  by code_simp

end
